theory Spec2Isabelle
  imports Complex_Main "HOL-Library.Multiset"
begin

section \<open>The two engines: OmegaCore (variant A) and TerminaCore (variant B)\<close>

text \<open>
  The repository holds two JavaScript modules with the same design: the
  TITANOMACHIA module with class \<open>OmegaCore\<close> (variant A) and
  \<open>scripts/termina.js\<close> with class \<open>TerminaCore\<close> (variant B).  Both
  are embedded here, method by method.

  Conventions of the embedding.
  \<^item> A JavaScript number is a \<open>real\<close>: the arithmetic is the exact one, with no
    rounding, no infinities and no NaN.  Counters and array lengths are \<open>nat\<close>.
    The clamps of \<open>ingestEvent\<close> behave otherwise on \<open>NaN\<close> and the
    infinities; for them the arithmetic of \<open>ingestEvent\<close> is embedded once more,
    over \<open>jsnum\<close>, further down, and shown to agree with this embedding on finite
    numbers (\<open>Omega_ingestEvent_js_finite\<close>, \<open>Termina_ingestEvent_js_finite\<close>).
  \<^item> \<open>Math.random()\<close> is a parameter: a generator \<open>g\<close> is the sequence of the
    draws still to come, and every method that draws returns the generator that is left.
  \<^item> A method takes the engine and returns the engine it leaves behind.  A method that can
    throw returns \<open>Inl (e, core, g)\<close> for the exception \<open>e\<close> raised with the
    engine left as \<open>core\<close>, and \<open>Inr (core, g)\<close> for a normal return.
  \<^item> A log line is the pair of the cycle counter printed in its prefix and a
    \<open>log_msg\<close>, which carries the values the line prints before they are
    formatted (\<open>toFixed\<close> is not modelled); a flavour fragment is carried as its
    index in the catalogue.
  \<^item> The two classes have fields of the same name, so a field is written with its class:
    \<open>OmegaCore.wrath\<close>, \<open>TerminaCore.wrath\<close>; a method that both classes
    have is prefixed \<open>Omega_\<close> or \<open>Termina_\<close>.
\<close>

subsection \<open>Data records\<close>

record WorldEvent =
  description :: string
  pain :: real
  joy :: real
  death :: bool
  betrayal :: bool
  kindness :: bool

record Catalyst =
  name :: string
  emotionalNoise :: real
  memories :: "string list"

datatype log_msg =
    CYCLE_BEGIN
  | CYCLE_END
  | INGEST string
  | STATE_UPDATE real real real
  | BIAS_UPDATE real "bool list"
  | MUTTER int
  | ATTEMPT
  | INFERENCE_GUESS string
  | WARNING_ENTROPY
  | ALERT_WRATH_OVERRUN
  | SOLVE
  | AGGREGATE real real nat nat
  | MONTE_CARLO
  | WORLDLINES int
  | INFERENCE_FAILURE string
  | FATAL_DIVISION_BY_ZERO
  | FATAL_CONTRADICTION
  | RATIO_COMPUTED real
  | RESULT_INCONCLUSIVE

type_synonym log_line = "nat \<times> log_msg"

text \<open>
  The messages of the exceptions, one constructor for each message text in the source:
  the three \<^verbatim>\<open>UNRESOLVED_..._PRIMUM[nn]: ...\<close> messages of \<open>solvePrimum\<close>, and of
  \<open>solvePrimeMover\<close> the messages
  \<^verbatim>\<open>UNRESOLVED_EQUATION: (betrayals + 2*deaths) / (joy - pain) -> ...\<close> and
  \<^verbatim>\<open>UNRESOLVED_EQUATION: prime mover of life cannot be reduced to a stable closed-form term.\<close>
  \<open>OmegaError\<close> has a \<open>code\<close> field, set by its constructor;
  \<open>class TerminaError extends Error {}\<close> declares none, so reading \<open>e.code\<close>
  on it yields \<open>undefined\<close>, which is \<open>None\<close> here.
\<close>

datatype message =
    UNRESOLVED_PRIMUM_01_DATA_INSUFFICIENT
  | UNRESOLVED_PRIMUM_02_SELF_REFERENTIAL_LOOP
  | UNRESOLVED_PRIMUM_03_CONFLICTING_AXIOMS
  | UNRESOLVED_EQUATION_INFINITY
  | UNRESOLVED_EQUATION_NO_CLOSED_FORM

datatype js_error =
    OmegaError message string
  | TerminaError message


subsection \<open>Randomness and small helpers\<close>

type_synonym rng = "nat \<Rightarrow> real"

definition Math_random :: "rng \<Rightarrow> real \<times> rng" where
  "Math_random g = (g 0, \<lambda>n. g (Suc n))"

text \<open>\<open>Math.floor(Math.random() * n)\<close>.\<close>

definition random_index :: "real \<Rightarrow> nat \<Rightarrow> int" where
  "random_index r n = \<lfloor>r * real n\<rfloor>"

text \<open>\<open>options[i]\<close> printed in a template: an index outside the array prints \<open>undefined\<close>.\<close>

definition pick :: "string list \<Rightarrow> int \<Rightarrow> string" where
  "pick xs i = (if 0 \<le> i \<and> i < int (length xs) then xs ! nat i else ''undefined'')"

text \<open>\<open>Math.round\<close> rounds half up.\<close>

definition Math_round :: "real \<Rightarrow> int" where
  "Math_round x = \<lfloor>x + 1 / 2\<rfloor>"

text \<open>What a thrown-or-returned result leaves behind.\<close>

type_synonym 'c outcome = "(js_error \<times> 'c \<times> rng) + ('c \<times> rng)"

fun core_of :: "'c outcome \<Rightarrow> 'c" where
  "core_of (Inl (e, c, g)) = c"
| "core_of (Inr (c, g)) = c"

fun thrown :: "'c outcome \<Rightarrow> js_error option" where
  "thrown (Inl (e, c, g)) = Some e"
| "thrown (Inr (c, g)) = None"

subsection \<open>The aggregates of the solve step\<close>

text \<open>
  \<open>dataBuffer.reduce((sum, e) => sum + e.pain, 0)\<close> is a left fold from 0, and
  \<open>dataBuffer.filter(e => e.death).length\<close> a filter followed by a length.
\<close>

definition painSum :: "WorldEvent list \<Rightarrow> real" where
  "painSum buf = foldl (\<lambda>sum e. sum + pain e) 0 buf"

definition joySum :: "WorldEvent list \<Rightarrow> real" where
  "joySum buf = foldl (\<lambda>sum e. sum + joy e) 0 buf"

definition deaths :: "WorldEvent list \<Rightarrow> nat" where
  "deaths buf = length (filter death buf)"

definition betrayals :: "WorldEvent list \<Rightarrow> nat" where
  "betrayals buf = length (filter betrayal buf)"

subsection \<open>What one event contributes\<close>

text \<open>
  The local variables that \<open>ingestEvent\<close> computes from the event alone, in both
  classes by the same statements:
  \<^verbatim>\<open>let deltaWrath = event.pain + (event.betrayal ? 2.0 : 0.0);\<close>
  \<^verbatim>\<open>if (event.kindness) deltaWrath -= 0.5;\<close>
  \<^verbatim>\<open>let deltaEntropy = Math.abs(event.pain) + Math.abs(event.joy) + (event.death ? 5.0 : 0.0);\<close>
  and, in \<open>OmegaCore\<close> only,
  \<^verbatim>\<open>const biasDelta = (event.pain * 0.05) + (event.death ? 0.15 : 0) + (event.betrayal ? 0.1 : 0)\<close>
  \<^verbatim>\<open>                  - (event.joy * 0.03) - (event.kindness ? 0.08 : 0);\<close>
  \<^verbatim>\<open>const driftDelta = (event.betrayal ? 0.25 : 0) + (event.death ? 0.1 : 0) - (event.kindness ? 0.2 : 0);\<close>
\<close>

definition deltaWrath :: "WorldEvent \<Rightarrow> real" where
  "deltaWrath event =
     (let d = pain event + (if betrayal event then 2.0 else 0.0)
      in if kindness event then d - 0.5 else d)"

definition deltaEntropy :: "WorldEvent \<Rightarrow> real" where
  "deltaEntropy event = \<bar>pain event\<bar> + \<bar>joy event\<bar> + (if death event then 5.0 else 0.0)"

definition biasDelta :: "WorldEvent \<Rightarrow> real" where
  "biasDelta event =
     (pain event * 0.05) + (if death event then 0.15 else 0)
     + (if betrayal event then 0.1 else 0) - (joy event * 0.03)
     - (if kindness event then 0.08 else 0)"

definition driftDelta :: "WorldEvent \<Rightarrow> real" where
  "driftDelta event =
     (if betrayal event then 0.25 else 0) + (if death event then 0.1 else 0)
     - (if kindness event then 0.2 else 0)"

subsection \<open>Variant B: TerminaCore\<close>

text \<open>
  \<open>TerminaCore.log\<close> posts each line as a chat message; the messages posted so far
  are kept in the field \<open>chatMessages\<close>.
\<close>

record TerminaCore =
  catalyst :: Catalyst
  wrath :: real
  entropy :: real
  dataBuffer :: "WorldEvent list"
  solvedPrimeMover :: "string option"
  cyclesRun :: nat
  maxCyclesBeforeBreak :: nat
  chatMessages :: "log_line list"

definition TerminaCore_new :: "Catalyst \<Rightarrow> TerminaCore" where
  "TerminaCore_new c =
     \<lparr>catalyst = c, wrath = 0, entropy = 0, dataBuffer = [], solvedPrimeMover = None,
      cyclesRun = 0, maxCyclesBeforeBreak = 13, chatMessages = []\<rparr>"

definition Termina_log :: "log_msg \<Rightarrow> TerminaCore \<Rightarrow> TerminaCore" where
  "Termina_log m s = s\<lparr>chatMessages := chatMessages s @ [(TerminaCore.cyclesRun s, m)]\<rparr>"

definition Termina_ingestEvent :: "WorldEvent \<Rightarrow> TerminaCore \<Rightarrow> rng \<Rightarrow> TerminaCore \<times> rng" where
  "Termina_ingestEvent event s g =
     (let s1 = s\<lparr>TerminaCore.dataBuffer := TerminaCore.dataBuffer s @ [event]\<rparr>;
          s2 = Termina_log (INGEST (description event)) s1;
          (r, g1) = Math_random g;
          noise = emotionalNoise (TerminaCore.catalyst s2) * (r * 2 - 1);
          s3 = s2\<lparr>TerminaCore.wrath :=
                    max 0 (TerminaCore.wrath s2 + deltaWrath event + noise)\<rparr>;
          s4 = s3\<lparr>TerminaCore.entropy :=
                    TerminaCore.entropy s3 + max 0 (deltaEntropy event + \<bar>noise\<bar> * 0.25)\<rparr>;
          s5 = Termina_log (STATE_UPDATE (TerminaCore.wrath s4) (TerminaCore.entropy s4) noise) s4
      in (s5, g1))"

definition Termina_mumbleHalfThought :: "TerminaCore \<Rightarrow> rng \<Rightarrow> TerminaCore \<times> rng" where
  "Termina_mumbleHalfThought s g =
     (let (r, g1) = Math_random g
      in (Termina_log (MUTTER (random_index r 11)) s, g1))"

definition Termina_attemptPartialInference :: "TerminaCore \<Rightarrow> rng \<Rightarrow> TerminaCore \<times> rng" where
  "Termina_attemptPartialInference s g =
     (let s1 = Termina_log ATTEMPT s
      in if TerminaCore.entropy s1 < 20 then (Termina_log (INFERENCE_GUESS ''UNKNOWN'') s1, g)
         else if TerminaCore.wrath s1 > TerminaCore.entropy s1 * 0.4
         then (Termina_log (INFERENCE_GUESS ''DESTRUCTION'') s1, g)
         else (let options = [''SURVIVAL'', ''DESIRE'', ''SUFFERING'', ''CONNECTION''];
                   (r, g1) = Math_random g;
                   guess = pick options (random_index r (length options))
               in (Termina_log (INFERENCE_GUESS guess) s1, g1)))"

definition Termina_checkForInstability :: "TerminaCore \<Rightarrow> rng \<Rightarrow> TerminaCore \<times> rng" where
  "Termina_checkForInstability s g =
     (let (s1, g1) =
            (if TerminaCore.entropy s > 50 \<and> solvedPrimeMover s = None
             then Termina_mumbleHalfThought (Termina_log WARNING_ENTROPY s) g
             else (s, g))
      in if TerminaCore.wrath s1 > 40
         then Termina_mumbleHalfThought (Termina_log ALERT_WRATH_OVERRUN s1) g1
         else (s1, g1))"

definition solvePrimeMover :: "TerminaCore \<Rightarrow> rng \<Rightarrow> TerminaCore outcome" where
  "solvePrimeMover s g =
     (let s1 = Termina_log SOLVE s;
          buf = TerminaCore.dataBuffer s1;
          s2 = Termina_log (AGGREGATE (painSum buf) (joySum buf) (deaths buf) (betrayals buf)) s1;
          denominator = joySum buf - painSum buf
      in if \<bar>denominator\<bar> < 1 / 10 ^ 9
         then Inl (TerminaError UNRESOLVED_EQUATION_INFINITY,
                   Termina_log FATAL_DIVISION_BY_ZERO s2, g)
         else (let ratio = (real (betrayals buf) + real (deaths buf) * 2) / denominator;
                   s3 = Termina_log (RATIO_COMPUTED ratio) s2
               in if TerminaCore.entropy s3 > 66 \<or> \<bar>ratio\<bar> > 42
                  then Inl (TerminaError UNRESOLVED_EQUATION_NO_CLOSED_FORM,
                            Termina_log FATAL_CONTRADICTION s3, g)
                  else Inr (Termina_log RESULT_INCONCLUSIVE
                              (s3\<lparr>solvedPrimeMover := Some ''INCONCLUSIVE''\<rparr>), g)))"

definition Termina_runCycle :: "WorldEvent \<Rightarrow> TerminaCore \<Rightarrow> rng \<Rightarrow> TerminaCore outcome" where
  "Termina_runCycle event s g =
     (let s1 = Termina_log CYCLE_BEGIN (s\<lparr>TerminaCore.cyclesRun := TerminaCore.cyclesRun s + 1\<rparr>);
          (s2, g2) = Termina_ingestEvent event s1 g;
          (s3, g3) = Termina_attemptPartialInference s2 g2;
          (s4, g4) = Termina_checkForInstability s3 g3
      in if TerminaCore.cyclesRun s4 \<ge> TerminaCore.maxCyclesBeforeBreak s4
         then (case solvePrimeMover s4 g4 of
                 Inl e \<Rightarrow> Inl e
               | Inr (s5, g5) \<Rightarrow> Inr (Termina_log CYCLE_END s5, g5))
         else Inr (Termina_log CYCLE_END s4, g4))"

text \<open>
  The driver's loop \<open>for (const ev of shuffled) termina.runCycle(ev)\<close> inside
  \<open>try\<close>: the first exception ends it.
\<close>

fun Termina_runCycles :: "WorldEvent list \<Rightarrow> TerminaCore \<Rightarrow> rng \<Rightarrow> TerminaCore outcome" where
  "Termina_runCycles [] s g = Inr (s, g)"
| "Termina_runCycles (ev # evs) s g =
     (case Termina_runCycle ev s g of
        Inl e \<Rightarrow> Inl e
      | Inr (s', g') \<Rightarrow> Termina_runCycles evs s' g')"

subsection \<open>Variant A: OmegaCore\<close>

record OmegaCore =
  catalyst :: Catalyst
  wrath :: real
  entropy :: real
  destructionBias :: real
  alignmentDrift :: real
  dataBuffer :: "WorldEvent list"
  solvedPrimum :: "string option"
  cyclesRun :: nat
  maxCyclesBeforeBreak :: nat
  logLines :: "log_line list"

definition OmegaCore_new :: "Catalyst \<Rightarrow> OmegaCore" where
  "OmegaCore_new c =
     \<lparr>OmegaCore.catalyst = c, wrath = 0, entropy = 0, destructionBias = 0, alignmentDrift = 0,
      dataBuffer = [], solvedPrimum = None, cyclesRun = 0, maxCyclesBeforeBreak = 13,
      logLines = []\<rparr>"

definition Omega_log :: "log_msg \<Rightarrow> OmegaCore \<Rightarrow> OmegaCore" where
  "Omega_log m s = s\<lparr>logLines := logLines s @ [(OmegaCore.cyclesRun s, m)]\<rparr>"

text \<open>The five-position bar: \<open>True\<close> is a filled position.\<close>

definition alignmentGlyph :: "OmegaCore \<Rightarrow> bool list" where
  "alignmentGlyph s =
     (let t = max (- 1) (min 1 (alignmentDrift s));
          idx = Math_round ((t + 1) * 2)
      in map (\<lambda>i. int i \<le> idx) [0..<5])"

definition Omega_mumbleHalfThought :: "OmegaCore \<Rightarrow> rng \<Rightarrow> OmegaCore \<times> rng" where
  "Omega_mumbleHalfThought s g =
     (let (r, g1) = Math_random g
      in (Omega_log (MUTTER (random_index r 15)) s, g1))"

definition Omega_ingestEvent :: "WorldEvent \<Rightarrow> OmegaCore \<Rightarrow> rng \<Rightarrow> OmegaCore \<times> rng" where
  "Omega_ingestEvent event s g =
     (let s1 = s\<lparr>OmegaCore.dataBuffer := OmegaCore.dataBuffer s @ [event]\<rparr>;
          s2 = Omega_log (INGEST (description event)) s1;
          s3 = s2\<lparr>destructionBias := max 0 (min 1 (destructionBias s2 + biasDelta event))\<rparr>;
          s4 = s3\<lparr>alignmentDrift := max (- 1) (min 1 (alignmentDrift s3 + driftDelta event))\<rparr>;
          (r, g1) = Math_random g;
          noise = emotionalNoise (OmegaCore.catalyst s4) * (r * 2 - 1);
          s5 = s4\<lparr>OmegaCore.wrath := max 0 (OmegaCore.wrath s4 + deltaWrath event + noise)\<rparr>;
          s6 = s5\<lparr>OmegaCore.entropy :=
                    OmegaCore.entropy s5 + max 0 (deltaEntropy event + \<bar>noise\<bar> * 0.25)\<rparr>;
          s7 = Omega_log (STATE_UPDATE (OmegaCore.wrath s6) (OmegaCore.entropy s6) noise) s6;
          s8 = Omega_log (BIAS_UPDATE (destructionBias s7) (alignmentGlyph s7)) s7;
          (r2, g2) = Math_random g1
      in if r2 < 0.5 then Omega_mumbleHalfThought s8 g2 else (s8, g2))"

definition Omega_attemptPartialInference :: "OmegaCore \<Rightarrow> rng \<Rightarrow> OmegaCore \<times> rng" where
  "Omega_attemptPartialInference s g =
     (let s1 = Omega_log ATTEMPT s
      in if OmegaCore.entropy s1 < 20 then (Omega_log (INFERENCE_GUESS ''UNKNOWN'') s1, g)
         else if OmegaCore.wrath s1 > OmegaCore.entropy s1 * 0.4
         then (Omega_log (INFERENCE_GUESS ''DESTRUCTION'') s1, g)
         else (let options = [''SURVIVAL'', ''DESIRE'', ''SUFFERING'', ''CONNECTION''];
                   (r, g1) = Math_random g;
                   guess = pick options (random_index r (length options))
               in (Omega_log (INFERENCE_GUESS guess) s1, g1)))"

definition Omega_checkForInstability :: "OmegaCore \<Rightarrow> rng \<Rightarrow> OmegaCore \<times> rng" where
  "Omega_checkForInstability s g =
     (let (s1, g1) =
            (if OmegaCore.entropy s > 50 \<and> solvedPrimum s = None
             then Omega_mumbleHalfThought (Omega_log WARNING_ENTROPY s) g
             else (s, g))
      in if OmegaCore.wrath s1 > 40
         then Omega_mumbleHalfThought (Omega_log ALERT_WRATH_OVERRUN s1) g1
         else (s1, g1))"

definition solvePrimum :: "OmegaCore \<Rightarrow> rng \<Rightarrow> OmegaCore outcome" where
  "solvePrimum s g =
     (let s1 = Omega_log SOLVE s;
          buf = OmegaCore.dataBuffer s1;
          s2 = Omega_log (AGGREGATE (painSum buf) (joySum buf) (deaths buf) (betrayals buf)) s1;
          (r, g1) = Math_random g;
          iterations = \<lfloor>1000000 + r * 4000000000\<rfloor>;
          s3 = Omega_log MONTE_CARLO s2;
          s4 = Omega_log (WORLDLINES iterations) s3;
          denominator = joySum buf - painSum buf
      in if length buf < 3 \<or> \<bar>painSum buf\<bar> + \<bar>joySum buf\<bar> < 3
         then Inl (OmegaError UNRESOLVED_PRIMUM_01_DATA_INSUFFICIENT ''01'',
                   Omega_log (INFERENCE_FAILURE ''01'') s4, g1)
         else if \<bar>denominator\<bar> < 1 / 10 ^ 6
         then Inl (OmegaError UNRESOLVED_PRIMUM_02_SELF_REFERENTIAL_LOOP ''02'',
                   Omega_log (INFERENCE_FAILURE ''02'') s4, g1)
         else (let ratio = (real (betrayals buf) + real (deaths buf) * 2) / denominator;
                   s5 = Omega_log (RATIO_COMPUTED ratio) s4
               in if OmegaCore.entropy s5 > 66 \<or> \<bar>ratio\<bar> > 42
                     \<or> (destructionBias s5 > 0.4 \<and> joySum buf > painSum buf)
                  then Inl (OmegaError UNRESOLVED_PRIMUM_03_CONFLICTING_AXIOMS ''03'',
                            Omega_log (INFERENCE_FAILURE ''03'') s5, g1)
                  else Inr (Omega_log RESULT_INCONCLUSIVE
                              (s5\<lparr>solvedPrimum := Some ''INCONCLUSIVE''\<rparr>), g1)))"

definition Omega_runCycle :: "WorldEvent \<Rightarrow> OmegaCore \<Rightarrow> rng \<Rightarrow> OmegaCore outcome" where
  "Omega_runCycle event s g =
     (let s1 = Omega_log CYCLE_BEGIN (s\<lparr>OmegaCore.cyclesRun := OmegaCore.cyclesRun s + 1\<rparr>);
          (s2, g2) = Omega_ingestEvent event s1 g;
          (s3, g3) = Omega_attemptPartialInference s2 g2;
          (s4, g4) = Omega_checkForInstability s3 g3
      in if OmegaCore.cyclesRun s4 \<ge> OmegaCore.maxCyclesBeforeBreak s4
         then (case solvePrimum s4 g4 of
                 Inl e \<Rightarrow> Inl e
               | Inr (s5, g5) \<Rightarrow> Inr (Omega_log CYCLE_END s5, g5))
         else Inr (Omega_log CYCLE_END s4, g4))"

text \<open>
  The loop of \<open>runOmegaSimulation\<close>: \<open>for (const ev of shuffled) core.runCycle(ev)\<close>
  inside \<open>try\<close>.
\<close>

fun Omega_runCycles :: "WorldEvent list \<Rightarrow> OmegaCore \<Rightarrow> rng \<Rightarrow> OmegaCore outcome" where
  "Omega_runCycles [] s g = Inr (s, g)"
| "Omega_runCycles (ev # evs) s g =
     (case Omega_runCycle ev s g of
        Inl e \<Rightarrow> Inl e
      | Inr (s', g') \<Rightarrow> Omega_runCycles evs s' g')"

subsection \<open>The default events\<close>

definition WorldEvent_new :: "string \<Rightarrow> real \<Rightarrow> real \<Rightarrow> bool \<Rightarrow> bool \<Rightarrow> bool \<Rightarrow> WorldEvent" where
  "WorldEvent_new d p j de b k =
     \<lparr>description = d, pain = p, joy = j, death = de, betrayal = b, kindness = k\<rparr>"

text \<open>
  The thirteen canned events, the same list in \<open>defaultEvents()\<close> of variant A and in
  \<open>runTerminaSimulation\<close> of variant B; an attribute the source leaves out has the
  constructor's default (0 or false).
\<close>

definition defaultEvents :: "WorldEvent list" where
  "defaultEvents =
     [WorldEvent_new ''A village harvest celebration'' 0.5 4.0 False False True,
      WorldEvent_new ''A broken promise beside a river'' 3.0 0 False True False,
      WorldEvent_new ''A quiet funeral in winter'' 4.0 0 True False False,
      WorldEvent_new ''A stranger shares bread with a starving child'' 0 3.0 False False True,
      WorldEvent_new ''The first time someone looks away instead of helping'' 2.0 0 False False False,
      WorldEvent_new ''A city watches the Midnight Star fall'' 6.0 0 True True False,
      WorldEvent_new ''Two lovers part, believing they will meet again'' 2.5 1.5 False False False,
      WorldEvent_new ''A god remains silent'' 5.0 0 False True False,
      WorldEvent_new ''A small kindness in the shadow of a great horror'' 1.0 2.5 False False True,
      WorldEvent_new ''A child laughs at nothing in particular'' 0 2.0 False False False,
      WorldEvent_new ''A village swallowed by corruption overnight'' 7.0 0 True False False,
      WorldEvent_new ''Someone regrets surviving'' 4.5 0 False False False,
      WorldEvent_new ''A nameless hero dies unremembered'' 6.0 0 True False False]"

definition Catalyst_new :: "string \<Rightarrow> real \<Rightarrow> string list \<Rightarrow> Catalyst" where
  "Catalyst_new n noise ms = \<lparr>name = n, emotionalNoise = noise, memories = ms\<rparr>"

section \<open>Quantities the claims speak of\<close>

text \<open>
  The cycles in which the solve step was entered, read off the log: both solve methods
  write their \<open>SOLVE\<close> line first, prefixed with the cycle counter.
\<close>

definition solveCycles :: "log_line list \<Rightarrow> nat list" where
  "solveCycles ls = map fst (filter (\<lambda>l. snd l = SOLVE) ls)"

text \<open>
  The ratio of the formula, as the specification writes it:
  \<open>(betrayalCount + 2 * deathCount) / (joySum - painSum)\<close>.
\<close>

definition spec_ratio :: "WorldEvent list \<Rightarrow> real" where
  "spec_ratio buf = (real (betrayals buf) + 2 * real (deaths buf)) / (joySum buf - painSum buf)"

text \<open>
  The failure table of each solve method as a function of the buffer, the entropy and
  (variant A) the destruction bias; \<open>Omega_solve_thrown\<close> and
  \<open>Termina_solve_thrown\<close> below show that the methods compute exactly this.
\<close>

definition Omega_classify :: "WorldEvent list \<Rightarrow> real \<Rightarrow> real \<Rightarrow> js_error option" where
  "Omega_classify buf ent bias =
     (if length buf < 3 \<or> \<bar>painSum buf\<bar> + \<bar>joySum buf\<bar> < 3
      then Some (OmegaError UNRESOLVED_PRIMUM_01_DATA_INSUFFICIENT ''01'')
      else if \<bar>joySum buf - painSum buf\<bar> < 1 / 10 ^ 6
      then Some (OmegaError UNRESOLVED_PRIMUM_02_SELF_REFERENTIAL_LOOP ''02'')
      else if ent > 66 \<or> \<bar>spec_ratio buf\<bar> > 42 \<or> (bias > 0.4 \<and> joySum buf > painSum buf)
      then Some (OmegaError UNRESOLVED_PRIMUM_03_CONFLICTING_AXIOMS ''03'')
      else None)"

definition Termina_classify :: "WorldEvent list \<Rightarrow> real \<Rightarrow> js_error option" where
  "Termina_classify buf ent =
     (if \<bar>joySum buf - painSum buf\<bar> < 1 / 10 ^ 9
      then Some (TerminaError UNRESOLVED_EQUATION_INFINITY)
      else if ent > 66 \<or> \<bar>spec_ratio buf\<bar> > 42
      then Some (TerminaError UNRESOLVED_EQUATION_NO_CLOSED_FORM)
      else None)"


text \<open>
  The update quantities in the specification's words: \<open>deltaWrath = pain + (2.0 if
  betrayal else 0) - (0.5 if kindness else 0)\<close>, \<open>deltaEntropy = |pain| + |joy| +
  (5.0 if death else 0)\<close>, \<open>noise = emotionalNoise * U\<close>.
\<close>

definition spec_deltaWrath :: "WorldEvent \<Rightarrow> real" where
  "spec_deltaWrath ev =
     pain ev + (if betrayal ev then 2.0 else 0) - (if kindness ev then 0.5 else 0)"

definition spec_deltaEntropy :: "WorldEvent \<Rightarrow> real" where
  "spec_deltaEntropy ev = \<bar>pain ev\<bar> + \<bar>joy ev\<bar> + (if death ev then 5.0 else 0)"

definition spec_noise :: "Catalyst \<Rightarrow> real \<Rightarrow> real" where
  "spec_noise c u = emotionalNoise c * u"

subsection \<open>Concrete engines and event lists\<close>

text \<open>
  A generator whose every draw is \<open>r\<close>; a catalyst with the noise switched off and
  the catalyst of the two drivers (amplitude 3.5).
\<close>

definition const_rng :: "real \<Rightarrow> rng" where
  "const_rng r = (\<lambda>n. r)"

definition quiet :: Catalyst where
  "quiet = Catalyst_new ''Harker'' 0 []"

definition harker :: Catalyst where
  "harker = Catalyst_new ''Harker'' 3.5
     [''Warm hand in mine.'', ''The smell of old books.'',
      ''A promise I did not understand.'',
      ''A voice calling my name from very far away.'']"



definition dull :: WorldEvent where
  "dull = WorldEvent_new ''A dull ache'' 1 0 False False False"

definition dull_days13 :: "WorldEvent list" where
  "dull_days13 = replicate 13 dull"

definition dull_days14 :: "WorldEvent list" where
  "dull_days14 = dull_days13 @ [dull]"


definition balanced :: WorldEvent where
  "balanced = WorldEvent_new ''A bittersweet farewell'' 2 2 False False False"






definition omega_balanced :: OmegaCore where
  "omega_balanced =
     (OmegaCore_new quiet)\<lparr>OmegaCore.entropy := 12,
                            OmegaCore.dataBuffer := [balanced, balanced, balanced]\<rparr>"

definition termina_balanced :: TerminaCore where
  "termina_balanced =
     (TerminaCore_new quiet)\<lparr>TerminaCore.entropy := 12,
                              TerminaCore.dataBuffer := [balanced, balanced, balanced]\<rparr>"


subsection \<open>JavaScript numbers with their non-finite values\<close>

text \<open>
  The embedding above takes a JavaScript number for a real.  A number in the source can also
  be \<open>NaN\<close>, \<open>Infinity\<close> or \<open>-Infinity\<close>, and nothing in either module checks
  the attributes of an event.  Where a statement turns on that (the clamps of
  \<open>ingestEvent\<close>), the arithmetic statements of \<open>ingestEvent\<close> are embedded a
  second time over \<open>jsnum\<close>.  A finite number still has its exact value (no rounding,
  no overflow); the operations on the other values follow the language:
  \<^item> \<open>+\<close>, \<open>-\<close>, \<open>*\<close> give \<open>NaN\<close> when an operand is \<open>NaN\<close>, for
    \<open>Infinity - Infinity\<close> and for \<open>Infinity * 0\<close>;
  \<^item> \<open>Math.max\<close>, \<open>Math.min\<close> and \<open>Math.abs\<close> give \<open>NaN\<close> when an
    argument is \<open>NaN\<close>;
  \<^item> every comparison with \<open>NaN\<close> is false.
\<close>

datatype jsnum = NaN | NegInf | Fin real | PosInf

fun Number_isNaN :: "jsnum \<Rightarrow> bool" where
  "Number_isNaN NaN = True"
| "Number_isNaN x = False"

fun Number_isFinite :: "jsnum \<Rightarrow> bool" where
  "Number_isFinite (Fin x) = True"
| "Number_isFinite x = False"

text \<open>\<open>a <= b\<close>.\<close>

fun js_le :: "jsnum \<Rightarrow> jsnum \<Rightarrow> bool" where
  "js_le NaN b = False"
| "js_le a NaN = False"
| "js_le NegInf b = True"
| "js_le a PosInf = True"
| "js_le PosInf b = False"
| "js_le a NegInf = False"
| "js_le (Fin x) (Fin y) = (x \<le> y)"

text \<open>Unary minus, \<open>a + b\<close>, \<open>a - b\<close> and \<open>a * b\<close>.\<close>

fun js_neg :: "jsnum \<Rightarrow> jsnum" where
  "js_neg NaN = NaN"
| "js_neg NegInf = PosInf"
| "js_neg (Fin x) = Fin (- x)"
| "js_neg PosInf = NegInf"

fun js_add :: "jsnum \<Rightarrow> jsnum \<Rightarrow> jsnum" where
  "js_add NaN b = NaN"
| "js_add a NaN = NaN"
| "js_add PosInf NegInf = NaN"
| "js_add NegInf PosInf = NaN"
| "js_add PosInf b = PosInf"
| "js_add a PosInf = PosInf"
| "js_add NegInf b = NegInf"
| "js_add a NegInf = NegInf"
| "js_add (Fin x) (Fin y) = Fin (x + y)"

definition js_sub :: "jsnum \<Rightarrow> jsnum \<Rightarrow> jsnum" where
  "js_sub a b = js_add a (js_neg b)"

fun js_mul :: "jsnum \<Rightarrow> jsnum \<Rightarrow> jsnum" where
  "js_mul NaN b = NaN"
| "js_mul a NaN = NaN"
| "js_mul (Fin x) (Fin y) = Fin (x * y)"
| "js_mul (Fin x) PosInf = (if x = 0 then NaN else if 0 < x then PosInf else NegInf)"
| "js_mul (Fin x) NegInf = (if x = 0 then NaN else if 0 < x then NegInf else PosInf)"
| "js_mul PosInf (Fin y) = (if y = 0 then NaN else if 0 < y then PosInf else NegInf)"
| "js_mul NegInf (Fin y) = (if y = 0 then NaN else if 0 < y then NegInf else PosInf)"
| "js_mul PosInf PosInf = PosInf"
| "js_mul PosInf NegInf = NegInf"
| "js_mul NegInf PosInf = NegInf"
| "js_mul NegInf NegInf = PosInf"

fun Math_abs :: "jsnum \<Rightarrow> jsnum" where
  "Math_abs NaN = NaN"
| "Math_abs NegInf = PosInf"
| "Math_abs (Fin x) = Fin \<bar>x\<bar>"
| "Math_abs PosInf = PosInf"

definition Math_max :: "jsnum \<Rightarrow> jsnum \<Rightarrow> jsnum" where
  "Math_max a b =
     (if Number_isNaN a \<or> Number_isNaN b then NaN else if js_le a b then b else a)"

definition Math_min :: "jsnum \<Rightarrow> jsnum \<Rightarrow> jsnum" where
  "Math_min a b =
     (if Number_isNaN a \<or> Number_isNaN b then NaN else if js_le a b then a else b)"

text \<open>
  The attributes of an event, and the numeric fields of each engine together with the
  \<open>emotionalNoise\<close> of its catalyst, over these numbers.
\<close>

record js_event =
  js_pain :: jsnum
  js_joy :: jsnum
  js_death :: bool
  js_betrayal :: bool
  js_kindness :: bool

record js_omega =
  jo_emotionalNoise :: jsnum
  jo_wrath :: jsnum
  jo_entropy :: jsnum
  jo_destructionBias :: jsnum
  jo_alignmentDrift :: jsnum

record js_termina =
  jt_emotionalNoise :: jsnum
  jt_wrath :: jsnum
  jt_entropy :: jsnum

text \<open>
  \<open>OmegaCore.ingestEvent\<close>, the statements from \<open>let deltaWrath\<close> to
  \<open>this.entropy += ...\<close>, in the order of the source; \<open>r\<close> is the value of
  \<open>Math.random()\<close>, a finite number.  The buffer and the log are left out: they do not
  enter the arithmetic.
\<close>

definition Omega_ingestEvent_js :: "js_event \<Rightarrow> real \<Rightarrow> js_omega \<Rightarrow> js_omega" where
  "Omega_ingestEvent_js event r s =
     (let deltaWrath0 = js_add (js_pain event) (if js_betrayal event then Fin 2.0 else Fin 0.0);
          deltaWrath = (if js_kindness event then js_sub deltaWrath0 (Fin 0.5) else deltaWrath0);
          deltaEntropy =
            js_add (js_add (Math_abs (js_pain event)) (Math_abs (js_joy event)))
              (if js_death event then Fin 5.0 else Fin 0.0);
          biasDelta =
            js_sub
              (js_sub
                 (js_add
                    (js_add (js_mul (js_pain event) (Fin 0.05))
                       (if js_death event then Fin 0.15 else Fin 0))
                    (if js_betrayal event then Fin 0.1 else Fin 0))
                 (js_mul (js_joy event) (Fin 0.03)))
              (if js_kindness event then Fin 0.08 else Fin 0);
          s1 = s\<lparr>jo_destructionBias :=
                   Math_max (Fin 0) (Math_min (Fin 1) (js_add (jo_destructionBias s) biasDelta))\<rparr>;
          driftDelta =
            js_sub
              (js_add (if js_betrayal event then Fin 0.25 else Fin 0)
                 (if js_death event then Fin 0.1 else Fin 0))
              (if js_kindness event then Fin 0.2 else Fin 0);
          s2 = s1\<lparr>jo_alignmentDrift :=
                    Math_max (Fin (- 1))
                      (Math_min (Fin 1) (js_add (jo_alignmentDrift s1) driftDelta))\<rparr>;
          noise = js_mul (jo_emotionalNoise s2) (js_sub (js_mul (Fin r) (Fin 2)) (Fin 1));
          s3 = s2\<lparr>jo_wrath :=
                    Math_max (Fin 0) (js_add (js_add (jo_wrath s2) deltaWrath) noise)\<rparr>;
          s4 = s3\<lparr>jo_entropy :=
                    js_add (jo_entropy s3)
                      (Math_max (Fin 0)
                         (js_add deltaEntropy (js_mul (Math_abs noise) (Fin 0.25))))\<rparr>
      in s4)"

text \<open>\<open>TerminaCore.ingestEvent\<close>, the same statements without the two bias fields.\<close>

definition Termina_ingestEvent_js :: "js_event \<Rightarrow> real \<Rightarrow> js_termina \<Rightarrow> js_termina" where
  "Termina_ingestEvent_js event r s =
     (let deltaWrath0 = js_add (js_pain event) (if js_betrayal event then Fin 2.0 else Fin 0.0);
          deltaWrath = (if js_kindness event then js_sub deltaWrath0 (Fin 0.5) else deltaWrath0);
          deltaEntropy =
            js_add (js_add (Math_abs (js_pain event)) (Math_abs (js_joy event)))
              (if js_death event then Fin 5.0 else Fin 0.0);
          noise = js_mul (jt_emotionalNoise s) (js_sub (js_mul (Fin r) (Fin 2)) (Fin 1));
          s1 = s\<lparr>jt_wrath :=
                   Math_max (Fin 0) (js_add (js_add (jt_wrath s) deltaWrath) noise)\<rparr>;
          s2 = s1\<lparr>jt_entropy :=
                    js_add (jt_entropy s1)
                      (Math_max (Fin 0)
                         (js_add deltaEntropy (js_mul (Math_abs noise) (Fin 0.25))))\<rparr>
      in s2)"

text \<open>The engines and events of the first embedding, as their finite counterparts here.\<close>

definition js_of_event :: "WorldEvent \<Rightarrow> js_event" where
  "js_of_event ev =
     \<lparr>js_pain = Fin (pain ev), js_joy = Fin (joy ev), js_death = death ev,
      js_betrayal = betrayal ev, js_kindness = kindness ev\<rparr>"

definition js_of_omega :: "OmegaCore \<Rightarrow> js_omega" where
  "js_of_omega s =
     \<lparr>jo_emotionalNoise = Fin (emotionalNoise (OmegaCore.catalyst s)),
      jo_wrath = Fin (OmegaCore.wrath s), jo_entropy = Fin (OmegaCore.entropy s),
      jo_destructionBias = Fin (destructionBias s),
      jo_alignmentDrift = Fin (alignmentDrift s)\<rparr>"

definition js_of_termina :: "TerminaCore \<Rightarrow> js_termina" where
  "js_of_termina s =
     \<lparr>jt_emotionalNoise = Fin (emotionalNoise (TerminaCore.catalyst s)),
      jt_wrath = Fin (TerminaCore.wrath s), jt_entropy = Fin (TerminaCore.entropy s)\<rparr>"

text \<open>
  Concrete inputs: a fresh engine of each class with the drivers' catalyst, one with an
  infinite noise amplitude, and events whose pain is not a finite number.
\<close>

definition js_omega_new :: "jsnum \<Rightarrow> js_omega" where
  "js_omega_new amplitude =
     \<lparr>jo_emotionalNoise = amplitude, jo_wrath = Fin 0, jo_entropy = Fin 0,
      jo_destructionBias = Fin 0, jo_alignmentDrift = Fin 0\<rparr>"

definition js_termina_new :: "jsnum \<Rightarrow> js_termina" where
  "js_termina_new amplitude =
     \<lparr>jt_emotionalNoise = amplitude, jt_wrath = Fin 0, jt_entropy = Fin 0\<rparr>"

definition js_event_new :: "jsnum \<Rightarrow> jsnum \<Rightarrow> js_event" where
  "js_event_new p j =
     \<lparr>js_pain = p, js_joy = j, js_death = False, js_betrayal = False, js_kindness = False\<rparr>"

section \<open>Symbolic execution of the methods\<close>

lemma solveCycles_Nil [simp]: "solveCycles [] = []"
  by (simp add: solveCycles_def)

lemma solveCycles_append [simp]: "solveCycles (xs @ ys) = solveCycles xs @ solveCycles ys"
  by (simp add: solveCycles_def)

lemma solveCycles_Cons [simp]:
  "solveCycles ((c, m) # ls) = (if m = SOLVE then c # solveCycles ls else solveCycles ls)"
  by (simp add: solveCycles_def)

lemma Omega_log_fields [simp]:
  "OmegaCore.catalyst (Omega_log m s) = OmegaCore.catalyst s"
  "OmegaCore.wrath (Omega_log m s) = OmegaCore.wrath s"
  "OmegaCore.entropy (Omega_log m s) = OmegaCore.entropy s"
  "destructionBias (Omega_log m s) = destructionBias s"
  "alignmentDrift (Omega_log m s) = alignmentDrift s"
  "OmegaCore.dataBuffer (Omega_log m s) = OmegaCore.dataBuffer s"
  "solvedPrimum (Omega_log m s) = solvedPrimum s"
  "OmegaCore.cyclesRun (Omega_log m s) = OmegaCore.cyclesRun s"
  "OmegaCore.maxCyclesBeforeBreak (Omega_log m s) = OmegaCore.maxCyclesBeforeBreak s"
  "logLines (Omega_log m s) = logLines s @ [(OmegaCore.cyclesRun s, m)]"
  by (simp_all add: Omega_log_def)

lemma Omega_mumble_fst:
  "fst (Omega_mumbleHalfThought s g) = Omega_log (MUTTER (random_index (g 0) 15)) s"
  by (simp add: Omega_mumbleHalfThought_def Math_random_def)

lemma Omega_mumble_snd: "snd (Omega_mumbleHalfThought s g) = (\<lambda>n. g (Suc n))"
  by (simp add: Omega_mumbleHalfThought_def Math_random_def)

lemma Omega_ingestEvent_fields:
  "OmegaCore.catalyst (fst (Omega_ingestEvent ev s g)) = OmegaCore.catalyst s"
  "OmegaCore.dataBuffer (fst (Omega_ingestEvent ev s g)) = OmegaCore.dataBuffer s @ [ev]"
  "solvedPrimum (fst (Omega_ingestEvent ev s g)) = solvedPrimum s"
  "OmegaCore.cyclesRun (fst (Omega_ingestEvent ev s g)) = OmegaCore.cyclesRun s"
  "OmegaCore.maxCyclesBeforeBreak (fst (Omega_ingestEvent ev s g)) = OmegaCore.maxCyclesBeforeBreak s"
  "solveCycles (logLines (fst (Omega_ingestEvent ev s g))) = solveCycles (logLines s)"
  "take (length (logLines s)) (logLines (fst (Omega_ingestEvent ev s g))) = logLines s"
  "OmegaCore.wrath (fst (Omega_ingestEvent ev s g)) =
     max 0 (OmegaCore.wrath s + deltaWrath ev + emotionalNoise (OmegaCore.catalyst s) * (g 0 * 2 - 1))"
  "OmegaCore.entropy (fst (Omega_ingestEvent ev s g)) =
     OmegaCore.entropy s
       + max 0 (deltaEntropy ev + \<bar>emotionalNoise (OmegaCore.catalyst s) * (g 0 * 2 - 1)\<bar> * 0.25)"
  "destructionBias (fst (Omega_ingestEvent ev s g)) =
     max 0 (min 1 (destructionBias s + biasDelta ev))"
  "alignmentDrift (fst (Omega_ingestEvent ev s g)) =
     max (- 1) (min 1 (alignmentDrift s + driftDelta ev))"
  by (simp_all add: Omega_ingestEvent_def Let_def split_def Omega_mumble_fst Math_random_def
        cong del: if_weak_cong)

lemma Omega_attempt_only_logs:
  "\<exists>ls. fst (Omega_attemptPartialInference s g) = s\<lparr>logLines := logLines s @ ls\<rparr>
        \<and> solveCycles ls = []"
  by (auto simp: Omega_attemptPartialInference_def Let_def split_def Omega_log_def)

lemma Omega_check_only_logs:
  "\<exists>ls. fst (Omega_checkForInstability s g) = s\<lparr>logLines := logLines s @ ls\<rparr>
        \<and> solveCycles ls = []"
  by (auto simp: Omega_checkForInstability_def Let_def split_def Omega_log_def
        Omega_mumbleHalfThought_def Math_random_def intro: exI [of _ "[]"])

lemma only_logs_fields:
  assumes "s' = s\<lparr>logLines := logLines s @ ls\<rparr>" and "solveCycles ls = []"
  shows "OmegaCore.catalyst s' = OmegaCore.catalyst s"
    and "OmegaCore.wrath s' = OmegaCore.wrath s"
    and "OmegaCore.entropy s' = OmegaCore.entropy s"
    and "destructionBias s' = destructionBias s"
    and "alignmentDrift s' = alignmentDrift s"
    and "OmegaCore.dataBuffer s' = OmegaCore.dataBuffer s"
    and "solvedPrimum s' = solvedPrimum s"
    and "OmegaCore.cyclesRun s' = OmegaCore.cyclesRun s"
    and "OmegaCore.maxCyclesBeforeBreak s' = OmegaCore.maxCyclesBeforeBreak s"
    and "solveCycles (logLines s') = solveCycles (logLines s)"
    and "take (length (logLines s)) (logLines s') = logLines s"
  using assms by simp_all

lemma Omega_attempt_fields:
  "OmegaCore.catalyst (fst (Omega_attemptPartialInference s g)) = OmegaCore.catalyst s"
  "OmegaCore.wrath (fst (Omega_attemptPartialInference s g)) = OmegaCore.wrath s"
  "OmegaCore.entropy (fst (Omega_attemptPartialInference s g)) = OmegaCore.entropy s"
  "destructionBias (fst (Omega_attemptPartialInference s g)) = destructionBias s"
  "alignmentDrift (fst (Omega_attemptPartialInference s g)) = alignmentDrift s"
  "OmegaCore.dataBuffer (fst (Omega_attemptPartialInference s g)) = OmegaCore.dataBuffer s"
  "solvedPrimum (fst (Omega_attemptPartialInference s g)) = solvedPrimum s"
  "OmegaCore.cyclesRun (fst (Omega_attemptPartialInference s g)) = OmegaCore.cyclesRun s"
  "OmegaCore.maxCyclesBeforeBreak (fst (Omega_attemptPartialInference s g))
     = OmegaCore.maxCyclesBeforeBreak s"
  "solveCycles (logLines (fst (Omega_attemptPartialInference s g))) = solveCycles (logLines s)"
  "take (length (logLines s)) (logLines (fst (Omega_attemptPartialInference s g))) = logLines s"
  using Omega_attempt_only_logs [of s g] by (auto dest: only_logs_fields)

lemma Omega_check_fields:
  "OmegaCore.catalyst (fst (Omega_checkForInstability s g)) = OmegaCore.catalyst s"
  "OmegaCore.wrath (fst (Omega_checkForInstability s g)) = OmegaCore.wrath s"
  "OmegaCore.entropy (fst (Omega_checkForInstability s g)) = OmegaCore.entropy s"
  "destructionBias (fst (Omega_checkForInstability s g)) = destructionBias s"
  "alignmentDrift (fst (Omega_checkForInstability s g)) = alignmentDrift s"
  "OmegaCore.dataBuffer (fst (Omega_checkForInstability s g)) = OmegaCore.dataBuffer s"
  "solvedPrimum (fst (Omega_checkForInstability s g)) = solvedPrimum s"
  "OmegaCore.cyclesRun (fst (Omega_checkForInstability s g)) = OmegaCore.cyclesRun s"
  "OmegaCore.maxCyclesBeforeBreak (fst (Omega_checkForInstability s g))
     = OmegaCore.maxCyclesBeforeBreak s"
  "solveCycles (logLines (fst (Omega_checkForInstability s g))) = solveCycles (logLines s)"
  "take (length (logLines s)) (logLines (fst (Omega_checkForInstability s g))) = logLines s"
  using Omega_check_only_logs [of s g] by (auto dest: only_logs_fields)

lemma Omega_solve_thrown:
  "thrown (solvePrimum s g)
     = Omega_classify (OmegaCore.dataBuffer s) (OmegaCore.entropy s) (destructionBias s)"
  by (simp add: solvePrimum_def Omega_classify_def spec_ratio_def Let_def split_def
        mult.commute)

lemma Omega_solve_fields:
  "OmegaCore.catalyst (core_of (solvePrimum s g)) = OmegaCore.catalyst s"
  "OmegaCore.wrath (core_of (solvePrimum s g)) = OmegaCore.wrath s"
  "OmegaCore.entropy (core_of (solvePrimum s g)) = OmegaCore.entropy s"
  "destructionBias (core_of (solvePrimum s g)) = destructionBias s"
  "alignmentDrift (core_of (solvePrimum s g)) = alignmentDrift s"
  "OmegaCore.dataBuffer (core_of (solvePrimum s g)) = OmegaCore.dataBuffer s"
  "OmegaCore.cyclesRun (core_of (solvePrimum s g)) = OmegaCore.cyclesRun s"
  "OmegaCore.maxCyclesBeforeBreak (core_of (solvePrimum s g)) = OmegaCore.maxCyclesBeforeBreak s"
  "solveCycles (logLines (core_of (solvePrimum s g)))
     = solveCycles (logLines s) @ [OmegaCore.cyclesRun s]"
  "take (length (logLines s)) (logLines (core_of (solvePrimum s g))) = logLines s"
  by (simp_all add: solvePrimum_def Let_def split_def)

lemma Omega_solve_solved:
  "solvedPrimum (core_of (solvePrimum s g))
     = (if thrown (solvePrimum s g) = None then Some ''INCONCLUSIVE'' else solvedPrimum s)"
  by (simp add: solvePrimum_def Let_def split_def)

lemma thrown_case_outcome:
  "thrown (case r of Inl e \<Rightarrow> Inl e | Inr (s, g) \<Rightarrow> Inr (f s, g)) = thrown r"
  by (cases r) auto

lemma core_of_case_outcome:
  "core_of (case r of Inl e \<Rightarrow> Inl e | Inr (s, g) \<Rightarrow> Inr (f s, g))
     = (if thrown r = None then f (core_of r) else core_of r)"
  by (cases r) auto

lemmas Omega_step_fields =
  Omega_ingestEvent_fields Omega_attempt_fields Omega_check_fields Omega_solve_fields

lemma Omega_runCycle_thrown:
  "thrown (Omega_runCycle ev s g) =
     (if OmegaCore.maxCyclesBeforeBreak s \<le> OmegaCore.cyclesRun s + 1
      then Omega_classify (OmegaCore.dataBuffer s @ [ev])
             (OmegaCore.entropy s
                + max 0 (deltaEntropy ev
                         + \<bar>emotionalNoise (OmegaCore.catalyst s) * (g 0 * 2 - 1)\<bar> * 0.25))
             (max 0 (min 1 (destructionBias s + biasDelta ev)))
      else None)"
  by (simp add: Omega_runCycle_def Let_def split_def thrown_case_outcome Omega_solve_thrown
        Omega_step_fields)

lemma Omega_runCycle_fields:
  "OmegaCore.catalyst (core_of (Omega_runCycle ev s g)) = OmegaCore.catalyst s"
  "OmegaCore.maxCyclesBeforeBreak (core_of (Omega_runCycle ev s g))
     = OmegaCore.maxCyclesBeforeBreak s"
  "OmegaCore.cyclesRun (core_of (Omega_runCycle ev s g)) = OmegaCore.cyclesRun s + 1"
  "OmegaCore.dataBuffer (core_of (Omega_runCycle ev s g)) = OmegaCore.dataBuffer s @ [ev]"
  "OmegaCore.entropy (core_of (Omega_runCycle ev s g)) =
     OmegaCore.entropy s
       + max 0 (deltaEntropy ev
                + \<bar>emotionalNoise (OmegaCore.catalyst s) * (g 0 * 2 - 1)\<bar> * 0.25)"
  "OmegaCore.wrath (core_of (Omega_runCycle ev s g)) =
     max 0 (OmegaCore.wrath s + deltaWrath ev
            + emotionalNoise (OmegaCore.catalyst s) * (g 0 * 2 - 1))"
  "destructionBias (core_of (Omega_runCycle ev s g)) =
     max 0 (min 1 (destructionBias s + biasDelta ev))"
  "alignmentDrift (core_of (Omega_runCycle ev s g)) =
     max (- 1) (min 1 (alignmentDrift s + driftDelta ev))"
  "solveCycles (logLines (core_of (Omega_runCycle ev s g))) =
     solveCycles (logLines s)
       @ (if OmegaCore.maxCyclesBeforeBreak s \<le> OmegaCore.cyclesRun s + 1
          then [OmegaCore.cyclesRun s + 1] else [])"
  by (simp_all add: Omega_runCycle_def Let_def split_def core_of_case_outcome
        thrown_case_outcome Omega_step_fields)


lemma solve_range_step:
  assumes "c + 1 \<le> c'"
  shows "(if m \<le> c + 1 then [c + 1] else []) @ [max (c + 1 + 1) m ..< Suc c']
           = [max (c + 1) m ..< Suc (c'::nat)]"
proof (cases "m \<le> c + 1")
  case True
  then have "max (c + 1 + 1) m = Suc (c + 1)" and "max (c + 1) m = c + 1"
    by simp_all
  moreover have "[c + 1 ..< Suc c'] = (c + 1) # [Suc (c + 1) ..< Suc c']"
    using assms by (simp add: upt_conv_Cons)
  ultimately show ?thesis
    using True by simp
next
  case False
  then have "max (c + 1 + 1) m = m" and "max (c + 1) m = m"
    by simp_all
  then show ?thesis
    using False by simp
qed

lemma Omega_runCycles_counter:
  "OmegaCore.maxCyclesBeforeBreak (core_of (Omega_runCycles evs s g))
     = OmegaCore.maxCyclesBeforeBreak s
   \<and> OmegaCore.cyclesRun s \<le> OmegaCore.cyclesRun (core_of (Omega_runCycles evs s g))
   \<and> OmegaCore.cyclesRun (core_of (Omega_runCycles evs s g))
       \<le> OmegaCore.cyclesRun s + length evs
   \<and> length (OmegaCore.dataBuffer (core_of (Omega_runCycles evs s g)))
       = length (OmegaCore.dataBuffer s)
         + (OmegaCore.cyclesRun (core_of (Omega_runCycles evs s g)) - OmegaCore.cyclesRun s)
   \<and> (thrown (Omega_runCycles evs s g) = None \<longrightarrow>
        OmegaCore.cyclesRun (core_of (Omega_runCycles evs s g))
          = OmegaCore.cyclesRun s + length evs)
   \<and> (thrown (Omega_runCycles evs s g) \<noteq> None \<longrightarrow>
        OmegaCore.maxCyclesBeforeBreak s
          \<le> OmegaCore.cyclesRun (core_of (Omega_runCycles evs s g)))
   \<and> solveCycles (logLines (core_of (Omega_runCycles evs s g)))
       = solveCycles (logLines s)
         @ [max (OmegaCore.cyclesRun s + 1) (OmegaCore.maxCyclesBeforeBreak s)
            ..< Suc (OmegaCore.cyclesRun (core_of (Omega_runCycles evs s g)))]"
proof (induction evs arbitrary: s g)
  case Nil
  show ?case by simp
next
  case (Cons ev evs)
  note step = Omega_runCycle_fields [of ev s g]
  note thr = Omega_runCycle_thrown [of ev s g]
  show ?case
  proof (cases "Omega_runCycle ev s g")
    case (Inl a)
    obtain e s1 g1 where a: "a = (e, s1, g1)"
      by (cases a) auto
    have m: "OmegaCore.maxCyclesBeforeBreak s \<le> OmegaCore.cyclesRun s + 1"
      using thr Inl a by (auto split: if_splits)
    then have "max (OmegaCore.cyclesRun s + 1) (OmegaCore.maxCyclesBeforeBreak s)
                 = OmegaCore.cyclesRun s + 1"
      by simp
    then show ?thesis
      using step(1-4,9) Inl a m by simp
  next
    case (Inr b)
    obtain s1 g1 where b: "b = (s1, g1)"
      by (cases b) auto
    have s1: "OmegaCore.maxCyclesBeforeBreak s1 = OmegaCore.maxCyclesBeforeBreak s"
      "OmegaCore.cyclesRun s1 = OmegaCore.cyclesRun s + 1"
      "OmegaCore.dataBuffer s1 = OmegaCore.dataBuffer s @ [ev]"
      "solveCycles (logLines s1) = solveCycles (logLines s)
         @ (if OmegaCore.maxCyclesBeforeBreak s \<le> OmegaCore.cyclesRun s + 1
            then [OmegaCore.cyclesRun s + 1] else [])"
      using step(2,3,4,9) Inr b by simp_all
    have run: "Omega_runCycles (ev # evs) s g = Omega_runCycles evs s1 g1"
      using Inr b by simp
    note IH = Cons.IH [of s1 g1]
    have le: "OmegaCore.cyclesRun s + 1 \<le> OmegaCore.cyclesRun (core_of (Omega_runCycles evs s1 g1))"
      using IH s1(2) by simp
    have range: "solveCycles (logLines (core_of (Omega_runCycles evs s1 g1)))
        = solveCycles (logLines s)
          @ [max (OmegaCore.cyclesRun s + 1) (OmegaCore.maxCyclesBeforeBreak s)
             ..< Suc (OmegaCore.cyclesRun (core_of (Omega_runCycles evs s1 g1)))]"
      using IH solve_range_step [OF le, of "OmegaCore.maxCyclesBeforeBreak s"]
      by (simp only: s1 append_assoc)
    show ?thesis
      unfolding run using IH le range by (simp add: s1)
  qed
qed

lemma deltaEntropy_nonneg: "0 \<le> deltaEntropy ev"
  by (simp add: deltaEntropy_def)


lemma Omega_run_to_solve:
  assumes "evs \<noteq> []"
    and "OmegaCore.cyclesRun s + length evs = OmegaCore.maxCyclesBeforeBreak s"
    and "emotionalNoise (OmegaCore.catalyst s) = 0"
  shows "OmegaCore.dataBuffer (core_of (Omega_runCycles evs s g)) = OmegaCore.dataBuffer s @ evs
    \<and> OmegaCore.entropy (core_of (Omega_runCycles evs s g))
        = OmegaCore.entropy s + sum_list (map deltaEntropy evs)
    \<and> OmegaCore.cyclesRun (core_of (Omega_runCycles evs s g))
        = OmegaCore.maxCyclesBeforeBreak s
    \<and> (\<exists>b. thrown (Omega_runCycles evs s g)
             = Omega_classify (OmegaCore.dataBuffer s @ evs)
                 (OmegaCore.entropy s + sum_list (map deltaEntropy evs)) b)"
  using assms
proof (induction evs arbitrary: s g)
  case Nil
  then show ?case by simp
next
  case (Cons ev evs)
  note flds = Omega_runCycle_fields [of ev s g]
  note thr = Omega_runCycle_thrown [of ev s g]
  have ent: "OmegaCore.entropy (core_of (Omega_runCycle ev s g))
               = OmegaCore.entropy s + deltaEntropy ev"
    using Cons.prems(3) deltaEntropy_nonneg [of ev] by (simp add: flds)
  show ?case
  proof (cases "evs = []")
    case True
    then have m: "OmegaCore.maxCyclesBeforeBreak s \<le> OmegaCore.cyclesRun s + 1"
      using Cons.prems(2) by simp
    have run: "Omega_runCycles [ev] s g = Omega_runCycle ev s g"
      by (cases "Omega_runCycle ev s g") auto
    have "\<exists>b. thrown (Omega_runCycle ev s g)
             = Omega_classify (OmegaCore.dataBuffer s @ [ev])
                 (OmegaCore.entropy s + deltaEntropy ev) b"
      using thr m Cons.prems(3) deltaEntropy_nonneg [of ev] by auto
    then show ?thesis
      using True run ent flds(3,4) Cons.prems(2) by simp
  next
    case False
    then have "\<not> OmegaCore.maxCyclesBeforeBreak s \<le> OmegaCore.cyclesRun s + 1"
      using Cons.prems(2) by (cases evs) auto
    then have "thrown (Omega_runCycle ev s g) = None"
      using thr by simp
    then obtain s1 g1 where r1: "Omega_runCycle ev s g = Inr (s1, g1)"
      by (cases "Omega_runCycle ev s g") auto
    have s1: "OmegaCore.catalyst s1 = OmegaCore.catalyst s"
      "OmegaCore.maxCyclesBeforeBreak s1 = OmegaCore.maxCyclesBeforeBreak s"
      "OmegaCore.cyclesRun s1 = OmegaCore.cyclesRun s + 1"
      "OmegaCore.dataBuffer s1 = OmegaCore.dataBuffer s @ [ev]"
      "OmegaCore.entropy s1 = OmegaCore.entropy s + deltaEntropy ev"
      using flds(1-4) ent r1 by simp_all
    have "OmegaCore.cyclesRun s1 + length evs = OmegaCore.maxCyclesBeforeBreak s1"
      and "emotionalNoise (OmegaCore.catalyst s1) = 0"
      using Cons.prems(2,3) s1 by simp_all
    from Cons.IH [OF False this, of g1] show ?thesis
      using r1 by (simp add: s1 add.assoc)
  qed
qed

lemma foldl_plus_sum_list:
  "foldl (\<lambda>sum e. sum + f e) a buf = a + sum_list (map f buf)"
  for a :: real
  by (induction buf arbitrary: a) simp_all

lemma painSum_sum_list: "painSum buf = sum_list (map pain buf)"
  by (simp add: painSum_def foldl_plus_sum_list)

lemma joySum_sum_list: "joySum buf = sum_list (map joy buf)"
  by (simp add: joySum_def foldl_plus_sum_list)

lemma sum_list_map_mset:
  assumes "mset xs = mset ys"
  shows "sum_list (map f xs) = (sum_list (map f ys) :: real)"
proof -
  have "mset (map f xs) = mset (map f ys)"
    using assms by simp
  then have "sum_mset (mset (map f xs)) = sum_mset (mset (map f ys))"
    by (rule arg_cong)
  then show ?thesis
    by (simp only: sum_mset_sum_list)
qed

lemma length_filter_mset:
  assumes "mset xs = mset ys"
  shows "length (filter P xs) = length (filter P ys)"
proof -
  have "mset (filter P xs) = mset (filter P ys)"
    using assms by simp
  then show ?thesis
    by (rule mset_eq_length)
qed

lemma aggregates_mset:
  assumes "mset xs = mset ys"
  shows "painSum xs = painSum ys" and "joySum xs = joySum ys"
    and "deaths xs = deaths ys" and "betrayals xs = betrayals ys"
    and "length xs = length ys"
    and "sum_list (map deltaEntropy xs) = sum_list (map deltaEntropy ys)"
proof -
  show "painSum xs = painSum ys"
    unfolding painSum_sum_list by (rule sum_list_map_mset [OF assms])
  show "joySum xs = joySum ys"
    unfolding joySum_sum_list by (rule sum_list_map_mset [OF assms])
  show "deaths xs = deaths ys"
    unfolding deaths_def by (rule length_filter_mset [OF assms])
  show "betrayals xs = betrayals ys"
    unfolding betrayals_def by (rule length_filter_mset [OF assms])
  show "length xs = length ys"
    by (rule mset_eq_length [OF assms])
  show "sum_list (map deltaEntropy xs) = sum_list (map deltaEntropy ys)"
    by (rule sum_list_map_mset [OF assms])
qed

lemma defaultEvents_aggregates:
  "painSum defaultEvents = 41.5" "joySum defaultEvents = 13"
  "deaths defaultEvents = 4" "betrayals defaultEvents = 3"
  "length defaultEvents = 13"
  "sum_list (map deltaEntropy defaultEvents) = 74.5"
  by (simp_all add: defaultEvents_def WorldEvent_new_def painSum_def joySum_def deaths_def
        betrayals_def deltaEntropy_def)

lemma Termina_log_fields [simp]:
  "TerminaCore.catalyst (Termina_log m s) = TerminaCore.catalyst s"
  "TerminaCore.wrath (Termina_log m s) = TerminaCore.wrath s"
  "TerminaCore.entropy (Termina_log m s) = TerminaCore.entropy s"
  "TerminaCore.dataBuffer (Termina_log m s) = TerminaCore.dataBuffer s"
  "solvedPrimeMover (Termina_log m s) = solvedPrimeMover s"
  "TerminaCore.cyclesRun (Termina_log m s) = TerminaCore.cyclesRun s"
  "TerminaCore.maxCyclesBeforeBreak (Termina_log m s) = TerminaCore.maxCyclesBeforeBreak s"
  "chatMessages (Termina_log m s) = chatMessages s @ [(TerminaCore.cyclesRun s, m)]"
  by (simp_all add: Termina_log_def)

lemma Termina_ingestEvent_fields:
  "TerminaCore.catalyst (fst (Termina_ingestEvent ev s g)) = TerminaCore.catalyst s"
  "TerminaCore.dataBuffer (fst (Termina_ingestEvent ev s g)) = TerminaCore.dataBuffer s @ [ev]"
  "solvedPrimeMover (fst (Termina_ingestEvent ev s g)) = solvedPrimeMover s"
  "TerminaCore.cyclesRun (fst (Termina_ingestEvent ev s g)) = TerminaCore.cyclesRun s"
  "TerminaCore.maxCyclesBeforeBreak (fst (Termina_ingestEvent ev s g))
     = TerminaCore.maxCyclesBeforeBreak s"
  "solveCycles (chatMessages (fst (Termina_ingestEvent ev s g))) = solveCycles (chatMessages s)"
  "take (length (chatMessages s)) (chatMessages (fst (Termina_ingestEvent ev s g)))
     = chatMessages s"
  "TerminaCore.wrath (fst (Termina_ingestEvent ev s g)) =
     max 0 (TerminaCore.wrath s + deltaWrath ev
            + emotionalNoise (TerminaCore.catalyst s) * (g 0 * 2 - 1))"
  "TerminaCore.entropy (fst (Termina_ingestEvent ev s g)) =
     TerminaCore.entropy s
       + max 0 (deltaEntropy ev
                + \<bar>emotionalNoise (TerminaCore.catalyst s) * (g 0 * 2 - 1)\<bar> * 0.25)"
  by (simp_all add: Termina_ingestEvent_def Let_def split_def Math_random_def)

lemma Termina_attempt_only_logs:
  "\<exists>ls. fst (Termina_attemptPartialInference s g) = s\<lparr>chatMessages := chatMessages s @ ls\<rparr>
        \<and> solveCycles ls = []"
  by (auto simp: Termina_attemptPartialInference_def Let_def split_def Termina_log_def)

lemma Termina_check_only_logs:
  "\<exists>ls. fst (Termina_checkForInstability s g) = s\<lparr>chatMessages := chatMessages s @ ls\<rparr>
        \<and> solveCycles ls = []"
  by (auto simp: Termina_checkForInstability_def Let_def split_def Termina_log_def
        Termina_mumbleHalfThought_def Math_random_def intro: exI [of _ "[]"])

lemma only_chats_fields:
  assumes "s' = s\<lparr>chatMessages := chatMessages s @ ls\<rparr>" and "solveCycles ls = []"
  shows "TerminaCore.catalyst s' = TerminaCore.catalyst s"
    and "TerminaCore.wrath s' = TerminaCore.wrath s"
    and "TerminaCore.entropy s' = TerminaCore.entropy s"
    and "TerminaCore.dataBuffer s' = TerminaCore.dataBuffer s"
    and "solvedPrimeMover s' = solvedPrimeMover s"
    and "TerminaCore.cyclesRun s' = TerminaCore.cyclesRun s"
    and "TerminaCore.maxCyclesBeforeBreak s' = TerminaCore.maxCyclesBeforeBreak s"
    and "solveCycles (chatMessages s') = solveCycles (chatMessages s)"
    and "take (length (chatMessages s)) (chatMessages s') = chatMessages s"
  using assms by simp_all

lemma Termina_attempt_fields:
  "TerminaCore.catalyst (fst (Termina_attemptPartialInference s g)) = TerminaCore.catalyst s"
  "TerminaCore.wrath (fst (Termina_attemptPartialInference s g)) = TerminaCore.wrath s"
  "TerminaCore.entropy (fst (Termina_attemptPartialInference s g)) = TerminaCore.entropy s"
  "TerminaCore.dataBuffer (fst (Termina_attemptPartialInference s g)) = TerminaCore.dataBuffer s"
  "solvedPrimeMover (fst (Termina_attemptPartialInference s g)) = solvedPrimeMover s"
  "TerminaCore.cyclesRun (fst (Termina_attemptPartialInference s g)) = TerminaCore.cyclesRun s"
  "TerminaCore.maxCyclesBeforeBreak (fst (Termina_attemptPartialInference s g))
     = TerminaCore.maxCyclesBeforeBreak s"
  "solveCycles (chatMessages (fst (Termina_attemptPartialInference s g)))
     = solveCycles (chatMessages s)"
  "take (length (chatMessages s)) (chatMessages (fst (Termina_attemptPartialInference s g)))
     = chatMessages s"
  using Termina_attempt_only_logs [of s g] by (auto dest: only_chats_fields)

lemma Termina_check_fields:
  "TerminaCore.catalyst (fst (Termina_checkForInstability s g)) = TerminaCore.catalyst s"
  "TerminaCore.wrath (fst (Termina_checkForInstability s g)) = TerminaCore.wrath s"
  "TerminaCore.entropy (fst (Termina_checkForInstability s g)) = TerminaCore.entropy s"
  "TerminaCore.dataBuffer (fst (Termina_checkForInstability s g)) = TerminaCore.dataBuffer s"
  "solvedPrimeMover (fst (Termina_checkForInstability s g)) = solvedPrimeMover s"
  "TerminaCore.cyclesRun (fst (Termina_checkForInstability s g)) = TerminaCore.cyclesRun s"
  "TerminaCore.maxCyclesBeforeBreak (fst (Termina_checkForInstability s g))
     = TerminaCore.maxCyclesBeforeBreak s"
  "solveCycles (chatMessages (fst (Termina_checkForInstability s g)))
     = solveCycles (chatMessages s)"
  "take (length (chatMessages s)) (chatMessages (fst (Termina_checkForInstability s g)))
     = chatMessages s"
  using Termina_check_only_logs [of s g] by (auto dest: only_chats_fields)

lemma Termina_solve_thrown:
  "thrown (solvePrimeMover s g)
     = Termina_classify (TerminaCore.dataBuffer s) (TerminaCore.entropy s)"
  by (simp add: solvePrimeMover_def Termina_classify_def spec_ratio_def Let_def split_def
        mult.commute)

lemma Termina_solve_fields:
  "TerminaCore.catalyst (core_of (solvePrimeMover s g)) = TerminaCore.catalyst s"
  "TerminaCore.wrath (core_of (solvePrimeMover s g)) = TerminaCore.wrath s"
  "TerminaCore.entropy (core_of (solvePrimeMover s g)) = TerminaCore.entropy s"
  "TerminaCore.dataBuffer (core_of (solvePrimeMover s g)) = TerminaCore.dataBuffer s"
  "TerminaCore.cyclesRun (core_of (solvePrimeMover s g)) = TerminaCore.cyclesRun s"
  "TerminaCore.maxCyclesBeforeBreak (core_of (solvePrimeMover s g))
     = TerminaCore.maxCyclesBeforeBreak s"
  "solveCycles (chatMessages (core_of (solvePrimeMover s g)))
     = solveCycles (chatMessages s) @ [TerminaCore.cyclesRun s]"
  "take (length (chatMessages s)) (chatMessages (core_of (solvePrimeMover s g)))
     = chatMessages s"
  by (simp_all add: solvePrimeMover_def Let_def split_def)

lemma Termina_solve_solved:
  "solvedPrimeMover (core_of (solvePrimeMover s g))
     = (if thrown (solvePrimeMover s g) = None then Some ''INCONCLUSIVE''
        else solvedPrimeMover s)"
  by (simp add: solvePrimeMover_def Let_def split_def)

lemmas Termina_step_fields =
  Termina_ingestEvent_fields Termina_attempt_fields Termina_check_fields Termina_solve_fields

lemma Termina_runCycle_thrown:
  "thrown (Termina_runCycle ev s g) =
     (if TerminaCore.maxCyclesBeforeBreak s \<le> TerminaCore.cyclesRun s + 1
      then Termina_classify (TerminaCore.dataBuffer s @ [ev])
             (TerminaCore.entropy s
                + max 0 (deltaEntropy ev
                         + \<bar>emotionalNoise (TerminaCore.catalyst s) * (g 0 * 2 - 1)\<bar> * 0.25))
      else None)"
  by (simp add: Termina_runCycle_def Let_def split_def thrown_case_outcome Termina_solve_thrown
        Termina_step_fields)

lemma Termina_runCycle_fields:
  "TerminaCore.catalyst (core_of (Termina_runCycle ev s g)) = TerminaCore.catalyst s"
  "TerminaCore.maxCyclesBeforeBreak (core_of (Termina_runCycle ev s g))
     = TerminaCore.maxCyclesBeforeBreak s"
  "TerminaCore.cyclesRun (core_of (Termina_runCycle ev s g)) = TerminaCore.cyclesRun s + 1"
  "TerminaCore.dataBuffer (core_of (Termina_runCycle ev s g)) = TerminaCore.dataBuffer s @ [ev]"
  "TerminaCore.entropy (core_of (Termina_runCycle ev s g)) =
     TerminaCore.entropy s
       + max 0 (deltaEntropy ev
                + \<bar>emotionalNoise (TerminaCore.catalyst s) * (g 0 * 2 - 1)\<bar> * 0.25)"
  "TerminaCore.wrath (core_of (Termina_runCycle ev s g)) =
     max 0 (TerminaCore.wrath s + deltaWrath ev
            + emotionalNoise (TerminaCore.catalyst s) * (g 0 * 2 - 1))"
  "solveCycles (chatMessages (core_of (Termina_runCycle ev s g))) =
     solveCycles (chatMessages s)
       @ (if TerminaCore.maxCyclesBeforeBreak s \<le> TerminaCore.cyclesRun s + 1
          then [TerminaCore.cyclesRun s + 1] else [])"
  by (simp_all add: Termina_runCycle_def Let_def split_def core_of_case_outcome
        thrown_case_outcome Termina_step_fields)


lemma Termina_runCycles_counter:
  "TerminaCore.maxCyclesBeforeBreak (core_of (Termina_runCycles evs s g))
     = TerminaCore.maxCyclesBeforeBreak s
   \<and> TerminaCore.cyclesRun s \<le> TerminaCore.cyclesRun (core_of (Termina_runCycles evs s g))
   \<and> TerminaCore.cyclesRun (core_of (Termina_runCycles evs s g))
       \<le> TerminaCore.cyclesRun s + length evs
   \<and> length (TerminaCore.dataBuffer (core_of (Termina_runCycles evs s g)))
       = length (TerminaCore.dataBuffer s)
         + (TerminaCore.cyclesRun (core_of (Termina_runCycles evs s g)) - TerminaCore.cyclesRun s)
   \<and> (thrown (Termina_runCycles evs s g) = None \<longrightarrow>
        TerminaCore.cyclesRun (core_of (Termina_runCycles evs s g))
          = TerminaCore.cyclesRun s + length evs)
   \<and> (thrown (Termina_runCycles evs s g) \<noteq> None \<longrightarrow>
        TerminaCore.maxCyclesBeforeBreak s
          \<le> TerminaCore.cyclesRun (core_of (Termina_runCycles evs s g)))
   \<and> solveCycles (chatMessages (core_of (Termina_runCycles evs s g)))
       = solveCycles (chatMessages s)
         @ [max (TerminaCore.cyclesRun s + 1) (TerminaCore.maxCyclesBeforeBreak s)
            ..< Suc (TerminaCore.cyclesRun (core_of (Termina_runCycles evs s g)))]"
proof (induction evs arbitrary: s g)
  case Nil
  show ?case by simp
next
  case (Cons ev evs)
  note step = Termina_runCycle_fields [of ev s g]
  note thr = Termina_runCycle_thrown [of ev s g]
  show ?case
  proof (cases "Termina_runCycle ev s g")
    case (Inl a)
    obtain e s1 g1 where a: "a = (e, s1, g1)"
      by (cases a) auto
    have m: "TerminaCore.maxCyclesBeforeBreak s \<le> TerminaCore.cyclesRun s + 1"
      using thr Inl a by (auto split: if_splits)
    then have "max (TerminaCore.cyclesRun s + 1) (TerminaCore.maxCyclesBeforeBreak s)
                 = TerminaCore.cyclesRun s + 1"
      by simp
    then show ?thesis
      using step(1-4,7) Inl a m by simp
  next
    case (Inr b)
    obtain s1 g1 where b: "b = (s1, g1)"
      by (cases b) auto
    have s1: "TerminaCore.maxCyclesBeforeBreak s1 = TerminaCore.maxCyclesBeforeBreak s"
      "TerminaCore.cyclesRun s1 = TerminaCore.cyclesRun s + 1"
      "TerminaCore.dataBuffer s1 = TerminaCore.dataBuffer s @ [ev]"
      "solveCycles (chatMessages s1) = solveCycles (chatMessages s)
         @ (if TerminaCore.maxCyclesBeforeBreak s \<le> TerminaCore.cyclesRun s + 1
            then [TerminaCore.cyclesRun s + 1] else [])"
      using step(2,3,4,7) Inr b by simp_all
    have run: "Termina_runCycles (ev # evs) s g = Termina_runCycles evs s1 g1"
      using Inr b by simp
    note IH = Cons.IH [of s1 g1]
    have le: "TerminaCore.cyclesRun s + 1 \<le> TerminaCore.cyclesRun (core_of (Termina_runCycles evs s1 g1))"
      using IH s1(2) by simp
    have range: "solveCycles (chatMessages (core_of (Termina_runCycles evs s1 g1)))
        = solveCycles (chatMessages s)
          @ [max (TerminaCore.cyclesRun s + 1) (TerminaCore.maxCyclesBeforeBreak s)
             ..< Suc (TerminaCore.cyclesRun (core_of (Termina_runCycles evs s1 g1)))]"
      using IH solve_range_step [OF le, of "TerminaCore.maxCyclesBeforeBreak s"]
      by (simp only: s1 append_assoc)
    show ?thesis
      unfolding run using IH le range by (simp add: s1)
  qed
qed


lemma Termina_run_to_solve:
  assumes "evs \<noteq> []"
    and "TerminaCore.cyclesRun s + length evs = TerminaCore.maxCyclesBeforeBreak s"
    and "emotionalNoise (TerminaCore.catalyst s) = 0"
  shows "TerminaCore.dataBuffer (core_of (Termina_runCycles evs s g)) = TerminaCore.dataBuffer s @ evs
    \<and> TerminaCore.entropy (core_of (Termina_runCycles evs s g))
        = TerminaCore.entropy s + sum_list (map deltaEntropy evs)
    \<and> TerminaCore.cyclesRun (core_of (Termina_runCycles evs s g))
        = TerminaCore.maxCyclesBeforeBreak s
    \<and> thrown (Termina_runCycles evs s g)
         = Termina_classify (TerminaCore.dataBuffer s @ evs)
             (TerminaCore.entropy s + sum_list (map deltaEntropy evs))"
  using assms
proof (induction evs arbitrary: s g)
  case Nil
  then show ?case by simp
next
  case (Cons ev evs)
  note flds = Termina_runCycle_fields [of ev s g]
  note thr = Termina_runCycle_thrown [of ev s g]
  have ent: "TerminaCore.entropy (core_of (Termina_runCycle ev s g))
               = TerminaCore.entropy s + deltaEntropy ev"
    using Cons.prems(3) deltaEntropy_nonneg [of ev] by (simp add: flds)
  show ?case
  proof (cases "evs = []")
    case True
    then have m: "TerminaCore.maxCyclesBeforeBreak s \<le> TerminaCore.cyclesRun s + 1"
      using Cons.prems(2) by simp
    have run: "Termina_runCycles [ev] s g = Termina_runCycle ev s g"
      by (cases "Termina_runCycle ev s g") auto
    have "thrown (Termina_runCycle ev s g)
             = Termina_classify (TerminaCore.dataBuffer s @ [ev])
                 (TerminaCore.entropy s + deltaEntropy ev)"
      using thr m Cons.prems(3) deltaEntropy_nonneg [of ev] by auto
    then show ?thesis
      using True run ent flds(3,4) Cons.prems(2) by simp
  next
    case False
    then have "\<not> TerminaCore.maxCyclesBeforeBreak s \<le> TerminaCore.cyclesRun s + 1"
      using Cons.prems(2) by (cases evs) auto
    then have "thrown (Termina_runCycle ev s g) = None"
      using thr by simp
    then obtain s1 g1 where r1: "Termina_runCycle ev s g = Inr (s1, g1)"
      by (cases "Termina_runCycle ev s g") auto
    have s1: "TerminaCore.catalyst s1 = TerminaCore.catalyst s"
      "TerminaCore.maxCyclesBeforeBreak s1 = TerminaCore.maxCyclesBeforeBreak s"
      "TerminaCore.cyclesRun s1 = TerminaCore.cyclesRun s + 1"
      "TerminaCore.dataBuffer s1 = TerminaCore.dataBuffer s @ [ev]"
      "TerminaCore.entropy s1 = TerminaCore.entropy s + deltaEntropy ev"
      using flds(1-4) ent r1 by simp_all
    have "TerminaCore.cyclesRun s1 + length evs = TerminaCore.maxCyclesBeforeBreak s1"
      and "emotionalNoise (TerminaCore.catalyst s1) = 0"
      using Cons.prems(2,3) s1 by simp_all
    from Cons.IH [OF False this, of g1] show ?thesis
      using r1 by (simp add: s1 add.assoc)
  qed
qed


lemma Math_random_const: "Math_random (const_rng r) = (r, const_rng r)"
  by (simp add: Math_random_def const_rng_def)


lemmas aggregate_defs = painSum_def joySum_def deaths_def betrayals_def spec_ratio_def



lemma balanced_aggregates:
  "painSum [balanced, balanced, balanced] = 6" "joySum [balanced, balanced, balanced] = 6"
  "deaths [balanced, balanced, balanced] = 0" "betrayals [balanced, balanced, balanced] = 0"
  by (simp_all add: aggregate_defs balanced_def WorldEvent_new_def)

lemma balanced_states:
  "OmegaCore.dataBuffer omega_balanced = [balanced, balanced, balanced]"
  "OmegaCore.entropy omega_balanced = 12" "OmegaCore.cyclesRun omega_balanced = 0"
  "logLines omega_balanced = []"
  "TerminaCore.dataBuffer termina_balanced = [balanced, balanced, balanced]"
  "TerminaCore.entropy termina_balanced = 12" "TerminaCore.cyclesRun termina_balanced = 0"
  "chatMessages termina_balanced = []"
  by (simp_all add: omega_balanced_def termina_balanced_def OmegaCore_new_def
        TerminaCore_new_def)

lemma Omega_runCycles_catalyst:
  "OmegaCore.catalyst (core_of (Omega_runCycles evs s g)) = OmegaCore.catalyst s"
proof (induction evs arbitrary: s g)
  case Nil
  show ?case by simp
next
  case (Cons ev evs)
  have step: "OmegaCore.catalyst (core_of (Omega_runCycle ev s g)) = OmegaCore.catalyst s"
    by (simp add: Omega_runCycle_fields)
  show ?case
  proof (cases "Omega_runCycle ev s g")
    case (Inl a)
    then show ?thesis
      using step by simp
  next
    case (Inr b)
    obtain s1 g1 where b: "b = (s1, g1)"
      by (cases b) auto
    show ?thesis
      using step Cons.IH [of s1 g1] Inr b by simp
  qed
qed

lemma Termina_runCycles_catalyst:
  "TerminaCore.catalyst (core_of (Termina_runCycles evs s g)) = TerminaCore.catalyst s"
proof (induction evs arbitrary: s g)
  case Nil
  show ?case by simp
next
  case (Cons ev evs)
  have step: "TerminaCore.catalyst (core_of (Termina_runCycle ev s g)) = TerminaCore.catalyst s"
    by (simp add: Termina_runCycle_fields)
  show ?case
  proof (cases "Termina_runCycle ev s g")
    case (Inl a)
    then show ?thesis
      using step by simp
  next
    case (Inr b)
    obtain s1 g1 where b: "b = (s1, g1)"
      by (cases b) auto
    show ?thesis
      using step Cons.IH [of s1 g1] Inr b by simp
  qed
qed

lemma Omega_runCycles_append:
  "Omega_runCycles (xs @ ys) s g =
     (case Omega_runCycles xs s g of
        Inl e \<Rightarrow> Inl e
      | Inr (s', g') \<Rightarrow> Omega_runCycles ys s' g')"
  by (induction xs arbitrary: s g) (auto split: sum.splits)

lemma Termina_runCycles_append:
  "Termina_runCycles (xs @ ys) s g =
     (case Termina_runCycles xs s g of
        Inl e \<Rightarrow> Inl e
      | Inr (s', g') \<Rightarrow> Termina_runCycles ys s' g')"
  by (induction xs arbitrary: s g) (auto split: sum.splits)

lemma Omega_runCycles_single: "Omega_runCycles [ev] s g = Omega_runCycle ev s g"
  by (cases "Omega_runCycle ev s g") auto

lemma Termina_runCycles_single: "Termina_runCycles [ev] s g = Termina_runCycle ev s g"
  by (cases "Termina_runCycle ev s g") auto

lemma Omega_default_run:
  assumes "mset xs = mset defaultEvents" and "emotionalNoise c = 0"
  shows "OmegaCore.dataBuffer (core_of (Omega_runCycles xs (OmegaCore_new c) g)) = xs"
    and "OmegaCore.entropy (core_of (Omega_runCycles xs (OmegaCore_new c) g)) = 74.5"
    and "OmegaCore.cyclesRun (core_of (Omega_runCycles xs (OmegaCore_new c) g)) = 13"
    and "thrown (Omega_runCycles xs (OmegaCore_new c) g)
           = Some (OmegaError UNRESOLVED_PRIMUM_03_CONFLICTING_AXIOMS ''03'')"
proof -
  let ?s = "OmegaCore_new c"
  note agg = aggregates_mset [OF assms(1), unfolded defaultEvents_aggregates]
  have pre: "xs \<noteq> []"
    "OmegaCore.cyclesRun ?s + length xs = OmegaCore.maxCyclesBeforeBreak ?s"
    "emotionalNoise (OmegaCore.catalyst ?s) = 0"
    using agg(5) assms(2) by (auto simp: OmegaCore_new_def)
  note run = Omega_run_to_solve [OF pre, of g]
  show "OmegaCore.dataBuffer (core_of (Omega_runCycles xs ?s g)) = xs"
    using run by (simp add: OmegaCore_new_def)
  show "OmegaCore.entropy (core_of (Omega_runCycles xs ?s g)) = 74.5"
    using run by (simp add: OmegaCore_new_def agg)
  show "OmegaCore.cyclesRun (core_of (Omega_runCycles xs ?s g)) = 13"
    using run by (simp add: OmegaCore_new_def)
  show "thrown (Omega_runCycles xs ?s g)
           = Some (OmegaError UNRESOLVED_PRIMUM_03_CONFLICTING_AXIOMS ''03'')"
    using run by (auto simp: OmegaCore_new_def Omega_classify_def agg)
qed

lemma Termina_default_run:
  assumes "mset xs = mset defaultEvents" and "emotionalNoise c = 0"
  shows "TerminaCore.dataBuffer (core_of (Termina_runCycles xs (TerminaCore_new c) g)) = xs"
    and "TerminaCore.entropy (core_of (Termina_runCycles xs (TerminaCore_new c) g)) = 74.5"
    and "TerminaCore.cyclesRun (core_of (Termina_runCycles xs (TerminaCore_new c) g)) = 13"
    and "thrown (Termina_runCycles xs (TerminaCore_new c) g)
           = Some (TerminaError UNRESOLVED_EQUATION_NO_CLOSED_FORM)"
proof -
  let ?s = "TerminaCore_new c"
  note agg = aggregates_mset [OF assms(1), unfolded defaultEvents_aggregates]
  have pre: "xs \<noteq> []"
    "TerminaCore.cyclesRun ?s + length xs = TerminaCore.maxCyclesBeforeBreak ?s"
    "emotionalNoise (TerminaCore.catalyst ?s) = 0"
    using agg(5) assms(2) by (auto simp: TerminaCore_new_def)
  note run = Termina_run_to_solve [OF pre, of g]
  show "TerminaCore.dataBuffer (core_of (Termina_runCycles xs ?s g)) = xs"
    using run by (simp add: TerminaCore_new_def)
  show "TerminaCore.entropy (core_of (Termina_runCycles xs ?s g)) = 74.5"
    using run by (simp add: TerminaCore_new_def agg)
  show "TerminaCore.cyclesRun (core_of (Termina_runCycles xs ?s g)) = 13"
    using run by (simp add: TerminaCore_new_def)
  show "thrown (Termina_runCycles xs ?s g)
           = Some (TerminaError UNRESOLVED_EQUATION_NO_CLOSED_FORM)"
    using run by (simp add: TerminaCore_new_def Termina_classify_def agg)
qed

lemma dull_aggregates:
  "painSum dull_days13 = 13" "joySum dull_days13 = 0"
  "deaths dull_days13 = 0" "betrayals dull_days13 = 0" "length dull_days13 = 13"
  "sum_list (map deltaEntropy dull_days13) = 13" "dull_days13 \<noteq> []"
  "painSum (dull_days13 @ [dull]) = 14" "joySum (dull_days13 @ [dull]) = 0"
  "deaths (dull_days13 @ [dull]) = 0" "betrayals (dull_days13 @ [dull]) = 0"
  "length (dull_days13 @ [dull]) = 14" "deltaEntropy dull = 1"
  by (simp_all add: aggregate_defs dull_days13_def dull_def WorldEvent_new_def
        deltaEntropy_def eval_nat_numeral)

lemma OmegaCore_new_fields:
  "OmegaCore.catalyst (OmegaCore_new c) = c" "OmegaCore.wrath (OmegaCore_new c) = 0"
  "OmegaCore.entropy (OmegaCore_new c) = 0" "destructionBias (OmegaCore_new c) = 0"
  "alignmentDrift (OmegaCore_new c) = 0" "OmegaCore.dataBuffer (OmegaCore_new c) = []"
  "solvedPrimum (OmegaCore_new c) = None" "OmegaCore.cyclesRun (OmegaCore_new c) = 0"
  "OmegaCore.maxCyclesBeforeBreak (OmegaCore_new c) = 13" "logLines (OmegaCore_new c) = []"
  by (simp_all add: OmegaCore_new_def)

lemma TerminaCore_new_fields:
  "TerminaCore.catalyst (TerminaCore_new c) = c" "TerminaCore.wrath (TerminaCore_new c) = 0"
  "TerminaCore.entropy (TerminaCore_new c) = 0" "TerminaCore.dataBuffer (TerminaCore_new c) = []"
  "solvedPrimeMover (TerminaCore_new c) = None" "TerminaCore.cyclesRun (TerminaCore_new c) = 0"
  "TerminaCore.maxCyclesBeforeBreak (TerminaCore_new c) = 13"
  "chatMessages (TerminaCore_new c) = []"
  by (simp_all add: TerminaCore_new_def)

lemma Omega_dull_run:
  "thrown (Omega_runCycles dull_days14 (OmegaCore_new quiet) g) = None"
  "OmegaCore.cyclesRun (core_of (Omega_runCycles dull_days14 (OmegaCore_new quiet) g)) = 14"
  "solveCycles (logLines (core_of (Omega_runCycles dull_days14 (OmegaCore_new quiet) g)))
     = [13, 14]"
proof -
  let ?s = "OmegaCore_new quiet"
  let ?r13 = "Omega_runCycles dull_days13 ?s g"
  have q: "emotionalNoise quiet = 0"
    by (simp add: quiet_def Catalyst_new_def)
  have pre: "dull_days13 \<noteq> []"
    "OmegaCore.cyclesRun ?s + length dull_days13 = OmegaCore.maxCyclesBeforeBreak ?s"
    "emotionalNoise (OmegaCore.catalyst ?s) = 0"
    using q by (simp_all add: dull_aggregates OmegaCore_new_fields)
  note run = Omega_run_to_solve [OF pre, of g]
  have "thrown ?r13 = None"
    using run by (auto simp: OmegaCore_new_fields Omega_classify_def dull_aggregates spec_ratio_def)
  then obtain s13 g13 where r13: "?r13 = Inr (s13, g13)"
    by (cases ?r13) auto
  have s13: "OmegaCore.dataBuffer s13 = dull_days13" "OmegaCore.entropy s13 = 13"
    "OmegaCore.cyclesRun s13 = 13" "OmegaCore.maxCyclesBeforeBreak s13 = 13"
    "emotionalNoise (OmegaCore.catalyst s13) = 0"
    using run Omega_runCycles_counter [of dull_days13 ?s g]
      Omega_runCycles_catalyst [of dull_days13 ?s g] q
    by (simp_all add: r13 OmegaCore_new_fields dull_aggregates)
  have r14: "Omega_runCycles dull_days14 ?s g = Omega_runCycle dull s13 g13"
    unfolding dull_days14_def Omega_runCycles_append r13
    by (simp del: Omega_runCycles.simps add: Omega_runCycles_single)
  show thr: "thrown (Omega_runCycles dull_days14 ?s g) = None"
    unfolding r14
    by (simp add: Omega_runCycle_thrown s13 Omega_classify_def dull_aggregates spec_ratio_def)
  note cnt = Omega_runCycles_counter [of dull_days14 ?s g]
  show c14: "OmegaCore.cyclesRun (core_of (Omega_runCycles dull_days14 ?s g)) = 14"
    using cnt thr by (simp add: OmegaCore_new_fields dull_days14_def dull_aggregates)
  have "[13 ..< Suc 14] = [13, 14]"
    by (simp add: upt_conv_Cons)
  then show "solveCycles (logLines (core_of (Omega_runCycles dull_days14 ?s g))) = [13, 14]"
    using cnt by (simp add: c14 OmegaCore_new_fields)
qed

lemma Termina_dull_run:
  "thrown (Termina_runCycles dull_days14 (TerminaCore_new quiet) g) = None"
  "TerminaCore.cyclesRun (core_of (Termina_runCycles dull_days14 (TerminaCore_new quiet) g)) = 14"
  "solveCycles (chatMessages (core_of (Termina_runCycles dull_days14 (TerminaCore_new quiet) g)))
     = [13, 14]"
proof -
  let ?s = "TerminaCore_new quiet"
  let ?r13 = "Termina_runCycles dull_days13 ?s g"
  have q: "emotionalNoise quiet = 0"
    by (simp add: quiet_def Catalyst_new_def)
  have pre: "dull_days13 \<noteq> []"
    "TerminaCore.cyclesRun ?s + length dull_days13 = TerminaCore.maxCyclesBeforeBreak ?s"
    "emotionalNoise (TerminaCore.catalyst ?s) = 0"
    using q by (simp_all add: dull_aggregates TerminaCore_new_fields)
  note run = Termina_run_to_solve [OF pre, of g]
  have "thrown ?r13 = None"
    using run by (simp add: TerminaCore_new_fields Termina_classify_def dull_aggregates spec_ratio_def)
  then obtain s13 g13 where r13: "?r13 = Inr (s13, g13)"
    by (cases ?r13) auto
  have s13: "TerminaCore.dataBuffer s13 = dull_days13" "TerminaCore.entropy s13 = 13"
    "TerminaCore.cyclesRun s13 = 13" "TerminaCore.maxCyclesBeforeBreak s13 = 13"
    "emotionalNoise (TerminaCore.catalyst s13) = 0"
    using run Termina_runCycles_counter [of dull_days13 ?s g]
      Termina_runCycles_catalyst [of dull_days13 ?s g] q
    by (simp_all add: r13 TerminaCore_new_fields dull_aggregates)
  have r14: "Termina_runCycles dull_days14 ?s g = Termina_runCycle dull s13 g13"
    unfolding dull_days14_def Termina_runCycles_append r13
    by (simp del: Termina_runCycles.simps add: Termina_runCycles_single)
  show thr: "thrown (Termina_runCycles dull_days14 ?s g) = None"
    unfolding r14
    by (simp add: Termina_runCycle_thrown s13 Termina_classify_def dull_aggregates spec_ratio_def)
  note cnt = Termina_runCycles_counter [of dull_days14 ?s g]
  show c14: "TerminaCore.cyclesRun (core_of (Termina_runCycles dull_days14 ?s g)) = 14"
    using cnt thr by (simp add: TerminaCore_new_fields dull_days14_def dull_aggregates)
  have "[13 ..< Suc 14] = [13, 14]"
    by (simp add: upt_conv_Cons)
  then show "solveCycles (chatMessages (core_of (Termina_runCycles dull_days14 ?s g)))
      = [13, 14]"
    using cnt by (simp add: c14 TerminaCore_new_fields)
qed

lemma spec_deltaWrath_eq: "deltaWrath ev = spec_deltaWrath ev"
  by (simp add: deltaWrath_def spec_deltaWrath_def Let_def)

lemma spec_deltaEntropy_eq: "deltaEntropy ev = spec_deltaEntropy ev"
  by (simp add: deltaEntropy_def spec_deltaEntropy_def)

lemma noise_bound:
  assumes "0 \<le> r" and "r < 1"
  shows "\<bar>spec_noise c (r * 2 - 1)\<bar> \<le> \<bar>emotionalNoise c\<bar>"
proof -
  have "\<bar>r * 2 - 1\<bar> \<le> 1"
    using assms by (simp add: abs_le_iff)
  then have "\<bar>emotionalNoise c\<bar> * \<bar>r * 2 - 1\<bar> \<le> \<bar>emotionalNoise c\<bar> * 1"
    by (intro mult_left_mono) simp_all
  then show ?thesis
    by (simp add: spec_noise_def abs_mult)
qed



lemma Omega_runCycles_take:
  "Omega_runCycles
     (take (OmegaCore.cyclesRun (core_of (Omega_runCycles evs s g)) - OmegaCore.cyclesRun s) evs)
     s g
   = Omega_runCycles evs s g"
proof (induction evs arbitrary: s g)
  case Nil
  show ?case by simp
next
  case (Cons ev evs)
  note step = Omega_runCycle_fields(3) [of ev s g]
  show ?case
  proof (cases "Omega_runCycle ev s g")
    case (Inl a)
    then show ?thesis
      using step by simp
  next
    case (Inr b)
    obtain s1 g1 where b: "b = (s1, g1)"
      by (cases b) auto
    have s1: "OmegaCore.cyclesRun s1 = OmegaCore.cyclesRun s + 1"
      using step Inr b by simp
    have le: "OmegaCore.cyclesRun s1 \<le> OmegaCore.cyclesRun (core_of (Omega_runCycles evs s1 g1))"
      using Omega_runCycles_counter [of evs s1 g1] by simp
    then have "OmegaCore.cyclesRun (core_of (Omega_runCycles evs s1 g1)) - OmegaCore.cyclesRun s
        = Suc (OmegaCore.cyclesRun (core_of (Omega_runCycles evs s1 g1)) - OmegaCore.cyclesRun s1)"
      using s1 by simp
    then show ?thesis
      using Cons.IH [of s1 g1] Inr b by simp
  qed
qed

lemma Termina_runCycles_take:
  "Termina_runCycles
     (take (TerminaCore.cyclesRun (core_of (Termina_runCycles evs s g)) - TerminaCore.cyclesRun s)
        evs)
     s g
   = Termina_runCycles evs s g"
proof (induction evs arbitrary: s g)
  case Nil
  show ?case by simp
next
  case (Cons ev evs)
  note step = Termina_runCycle_fields(3) [of ev s g]
  show ?case
  proof (cases "Termina_runCycle ev s g")
    case (Inl a)
    then show ?thesis
      using step by simp
  next
    case (Inr b)
    obtain s1 g1 where b: "b = (s1, g1)"
      by (cases b) auto
    have s1: "TerminaCore.cyclesRun s1 = TerminaCore.cyclesRun s + 1"
      using step Inr b by simp
    have le: "TerminaCore.cyclesRun s1
                \<le> TerminaCore.cyclesRun (core_of (Termina_runCycles evs s1 g1))"
      using Termina_runCycles_counter [of evs s1 g1] by simp
    then have "TerminaCore.cyclesRun (core_of (Termina_runCycles evs s1 g1))
                 - TerminaCore.cyclesRun s
        = Suc (TerminaCore.cyclesRun (core_of (Termina_runCycles evs s1 g1))
                 - TerminaCore.cyclesRun s1)"
      using s1 by simp
    then show ?thesis
      using Cons.IH [of s1 g1] Inr b by simp
  qed
qed

subsection \<open>The arithmetic of ingestEvent on JavaScript numbers\<close>

lemmas js_defs = js_sub_def Math_max_def Math_min_def

lemma js_le_refl: "\<not> Number_isNaN x \<Longrightarrow> js_le x x"
  by (cases x) simp_all

lemma js_le_Fin_nonNaN: "js_le (Fin a) x \<Longrightarrow> \<not> Number_isNaN x"
  by (cases x) simp_all

lemma js_add_Fin_nonNaN: "\<not> Number_isNaN x \<Longrightarrow> \<not> Number_isNaN (js_add x (Fin a))"
  by (cases x) simp_all

lemma Math_max_lower:
  "\<not> Number_isNaN x \<Longrightarrow> js_le (Fin a) (Math_max (Fin a) x)"
  by (cases x) (simp_all add: Math_max_def)

lemma clamp_bounds:
  assumes "\<not> Number_isNaN x" and "lo \<le> hi"
  shows "js_le (Fin lo) (Math_max (Fin lo) (Math_min (Fin hi) x))"
    and "js_le (Math_max (Fin lo) (Math_min (Fin hi) x)) (Fin hi)"
    and "Number_isFinite (Math_max (Fin lo) (Math_min (Fin hi) x))"
  using assms by (cases x; simp add: Math_max_def Math_min_def)+

lemma Math_max_zero_nonneg: "js_le (Fin 0) x \<Longrightarrow> Math_max (Fin 0) x = x"
  by (cases x) (simp_all add: Math_max_def)

lemma Math_abs_nonneg: "\<not> Number_isNaN x \<Longrightarrow> js_le (Fin 0) (Math_abs x)"
  by (cases x) simp_all

lemma js_add_nonneg:
  "js_le (Fin 0) x \<Longrightarrow> js_le (Fin 0) y \<Longrightarrow> js_le (Fin 0) (js_add x y)"
  by (cases x; cases y) simp_all

lemma js_add_nonneg_mono:
  "js_le (Fin 0) x \<Longrightarrow> js_le (Fin 0) y \<Longrightarrow> js_le x (js_add x y)"
  by (cases x; cases y) simp_all

lemma js_noise_finite:
  "js_mul (Fin n) (js_sub (js_mul (Fin r) (Fin 2)) (Fin 1)) = Fin (n * (r * 2 - 1))"
  by (simp add: js_sub_def)

lemma Omega_ingestEvent_js_fields:
  "jo_emotionalNoise (Omega_ingestEvent_js ev r s) = jo_emotionalNoise s"
  "jo_destructionBias (Omega_ingestEvent_js ev r s) =
     Math_max (Fin 0) (Math_min (Fin 1) (js_add (jo_destructionBias s)
       (js_sub
          (js_sub
             (js_add
                (js_add (js_mul (js_pain ev) (Fin 0.05))
                   (if js_death ev then Fin 0.15 else Fin 0))
                (if js_betrayal ev then Fin 0.1 else Fin 0))
             (js_mul (js_joy ev) (Fin 0.03)))
          (if js_kindness ev then Fin 0.08 else Fin 0))))"
  "jo_alignmentDrift (Omega_ingestEvent_js ev r s) =
     Math_max (Fin (- 1)) (Math_min (Fin 1) (js_add (jo_alignmentDrift s)
       (js_sub
          (js_add (if js_betrayal ev then Fin 0.25 else Fin 0)
             (if js_death ev then Fin 0.1 else Fin 0))
          (if js_kindness ev then Fin 0.2 else Fin 0))))"
  "jo_wrath (Omega_ingestEvent_js ev r s) =
     Math_max (Fin 0)
       (js_add
          (js_add (jo_wrath s)
             (if js_kindness ev
              then js_sub (js_add (js_pain ev) (if js_betrayal ev then Fin 2.0 else Fin 0.0))
                     (Fin 0.5)
              else js_add (js_pain ev) (if js_betrayal ev then Fin 2.0 else Fin 0.0)))
          (js_mul (jo_emotionalNoise s) (js_sub (js_mul (Fin r) (Fin 2)) (Fin 1))))"
  "jo_entropy (Omega_ingestEvent_js ev r s) =
     js_add (jo_entropy s)
       (Math_max (Fin 0)
          (js_add
             (js_add (js_add (Math_abs (js_pain ev)) (Math_abs (js_joy ev)))
                (if js_death ev then Fin 5.0 else Fin 0.0))
             (js_mul
                (Math_abs (js_mul (jo_emotionalNoise s)
                             (js_sub (js_mul (Fin r) (Fin 2)) (Fin 1))))
                (Fin 0.25))))"
  unfolding Omega_ingestEvent_js_def Let_def by simp_all

lemma Termina_ingestEvent_js_fields:
  "jt_emotionalNoise (Termina_ingestEvent_js ev r s) = jt_emotionalNoise s"
  "jt_wrath (Termina_ingestEvent_js ev r s) =
     Math_max (Fin 0)
       (js_add
          (js_add (jt_wrath s)
             (if js_kindness ev
              then js_sub (js_add (js_pain ev) (if js_betrayal ev then Fin 2.0 else Fin 0.0))
                     (Fin 0.5)
              else js_add (js_pain ev) (if js_betrayal ev then Fin 2.0 else Fin 0.0)))
          (js_mul (jt_emotionalNoise s) (js_sub (js_mul (Fin r) (Fin 2)) (Fin 1))))"
  "jt_entropy (Termina_ingestEvent_js ev r s) =
     js_add (jt_entropy s)
       (Math_max (Fin 0)
          (js_add
             (js_add (js_add (Math_abs (js_pain ev)) (Math_abs (js_joy ev)))
                (if js_death ev then Fin 5.0 else Fin 0.0))
             (js_mul
                (Math_abs (js_mul (jt_emotionalNoise s)
                             (js_sub (js_mul (Fin r) (Fin 2)) (Fin 1))))
                (Fin 0.25))))"
  unfolding Termina_ingestEvent_js_def Let_def by simp_all

lemma Math_max_Fin: "Math_max (Fin a) (Fin b) = Fin (max a b)"
  by (simp add: Math_max_def max_def)

lemma Math_min_Fin: "Math_min (Fin a) (Fin b) = Fin (min a b)"
  by (simp add: Math_min_def min_def)

lemma js_sub_Fin: "js_sub (Fin a) (Fin b) = Fin (a - b)"
  by (simp add: js_sub_def)

lemma Omega_ingestEvent_js_finite:
  "Omega_ingestEvent_js (js_of_event ev) (g 0) (js_of_omega s)
     = js_of_omega (fst (Omega_ingestEvent ev s g))"
  by (simp add: js_of_omega_def js_of_event_def Omega_ingestEvent_js_def Let_def
        Omega_ingestEvent_fields Math_max_Fin Math_min_Fin js_sub_Fin
        deltaWrath_def deltaEntropy_def biasDelta_def driftDelta_def)

lemma Termina_ingestEvent_js_finite:
  "Termina_ingestEvent_js (js_of_event ev) (g 0) (js_of_termina s)
     = js_of_termina (fst (Termina_ingestEvent ev s g))"
  by (simp add: js_of_termina_def js_of_event_def Termina_ingestEvent_js_def Let_def
        Termina_ingestEvent_fields Math_max_Fin Math_min_Fin js_sub_Fin
        deltaWrath_def deltaEntropy_def)

lemma wrath_update_nonneg:
  assumes "Number_isFinite p" and "Number_isFinite n" and "\<not> Number_isNaN w"
  shows "js_le (Fin 0)
     (Math_max (Fin 0)
       (js_add
          (js_add w
             (if k then js_sub (js_add p (if b then Fin 2.0 else Fin 0.0)) (Fin 0.5)
              else js_add p (if b then Fin 2.0 else Fin 0.0)))
          (js_mul n (js_sub (js_mul (Fin r) (Fin 2)) (Fin 1)))))"
proof -
  obtain p' n' where p: "p = Fin p'" and n: "n = Fin n'"
    using assms(1,2) by (cases p; cases n) auto
  have "\<not> Number_isNaN
     (js_add
        (js_add w
           (if k then js_sub (js_add p (if b then Fin 2.0 else Fin 0.0)) (Fin 0.5)
            else js_add p (if b then Fin 2.0 else Fin 0.0)))
        (js_mul n (js_sub (js_mul (Fin r) (Fin 2)) (Fin 1))))"
    using assms(3) by (cases w) (simp_all add: p n js_sub_def)
  then show ?thesis
    by (rule Math_max_lower)
qed

lemma entropy_update_mono:
  assumes "\<not> Number_isNaN p" and "\<not> Number_isNaN j" and "Number_isFinite n"
    and "js_le (Fin 0) e"
  shows "js_le e
     (js_add e
       (Math_max (Fin 0)
          (js_add
             (js_add (js_add (Math_abs p) (Math_abs j)) (if d then Fin 5.0 else Fin 0.0))
             (js_mul (Math_abs (js_mul n (js_sub (js_mul (Fin r) (Fin 2)) (Fin 1))))
                (Fin 0.25)))))"
    and "js_le (Fin 0)
     (js_add e
       (Math_max (Fin 0)
          (js_add
             (js_add (js_add (Math_abs p) (Math_abs j)) (if d then Fin 5.0 else Fin 0.0))
             (js_mul (Math_abs (js_mul n (js_sub (js_mul (Fin r) (Fin 2)) (Fin 1))))
                (Fin 0.25)))))"
proof -
  obtain n' where n: "n = Fin n'"
    using assms(3) by (cases n) auto
  let ?delta = "js_add
             (js_add (js_add (Math_abs p) (Math_abs j)) (if d then Fin 5.0 else Fin 0.0))
             (js_mul (Math_abs (js_mul n (js_sub (js_mul (Fin r) (Fin 2)) (Fin 1))))
                (Fin 0.25))"
  have "js_le (Fin 0) (js_add (Math_abs p) (Math_abs j))"
    using assms(1,2) by (intro js_add_nonneg Math_abs_nonneg)
  then have "js_le (Fin 0)
      (js_add (js_add (Math_abs p) (Math_abs j)) (if d then Fin 5.0 else Fin 0.0))"
    by (rule js_add_nonneg) simp
  moreover have "js_le (Fin 0)
      (js_mul (Math_abs (js_mul n (js_sub (js_mul (Fin r) (Fin 2)) (Fin 1)))) (Fin 0.25))"
    by (simp add: n js_sub_def)
  ultimately have delta: "js_le (Fin 0) ?delta"
    by (rule js_add_nonneg)
  then have m: "Math_max (Fin 0) ?delta = ?delta"
    by (rule Math_max_zero_nonneg)
  show "js_le e (js_add e (Math_max (Fin 0) ?delta))"
    unfolding m using assms(4) delta by (rule js_add_nonneg_mono)
  show "js_le (Fin 0) (js_add e (Math_max (Fin 0) ?delta))"
    unfolding m using assms(4) delta by (rule js_add_nonneg)
qed

lemma biasDelta_nonNaN:
  assumes "\<not> Number_isNaN p" and "\<not> Number_isNaN j"
    and "\<not> (p = PosInf \<and> j = PosInf)" and "\<not> (p = NegInf \<and> j = NegInf)"
  shows "\<not> Number_isNaN
     (js_add (Fin b)
       (js_sub
          (js_sub
             (js_add
                (js_add (js_mul p (Fin 0.05)) (if d then Fin 0.15 else Fin 0))
                (if t then Fin 0.1 else Fin 0))
             (js_mul j (Fin 0.03)))
          (if k then Fin 0.08 else Fin 0)))"
  using assms by (cases p; cases j) (simp_all add: js_sub_def)

lemma driftDelta_nonNaN:
  assumes "\<not> Number_isNaN a"
  shows "\<not> Number_isNaN
     (js_add a
       (js_sub
          (js_add (if t then Fin 0.25 else Fin 0) (if d then Fin 0.1 else Fin 0))
          (if k then Fin 0.2 else Fin 0)))"
  using assms by (cases a) (simp_all add: js_sub_def)

lemmas js_eval_defs =
  Omega_ingestEvent_js_def Termina_ingestEvent_js_def js_event_new_def js_omega_new_def
  js_termina_new_def js_sub_def Math_max_def Math_min_def Let_def

section \<open>The claims\<close>

subsection \<open>C1: DATA_INSUFFICIENT comes first\<close>




subsection \<open>C2: CONFLICTING_AXIOMS, or else INCONCLUSIVE\<close>




subsection \<open>C3: SELF_REFERENTIAL_LOOP guards the division\<close>




subsection \<open>C4: the default events in any order\<close>

text \<open>
  Claim C4.  For every permutation \<open>xs\<close> of the thirteen default events, every
  catalyst with \<open>emotionalNoise = 0\<close> and every sequence of random draws, thirteen
  cycles from a fresh engine reach the solve step with the same aggregates
  (\<open>painSum = 41.5\<close>, \<open>joySum = 13\<close>, four deaths, three betrayals) and the same
  entropy 74.5, and the solve step of cycle 13 has the same outcome in every order: code
  \<open>03\<close> in variant A, the closed-form \<open>TerminaError\<close> in variant B (the entropy
  is above 66).
\<close>

theorem C4_default_events_any_order:
  assumes "mset xs = mset defaultEvents" and "emotionalNoise c = 0"
  shows "painSum (OmegaCore.dataBuffer (core_of (Omega_runCycles xs (OmegaCore_new c) g))) = 41.5
    \<and> joySum (OmegaCore.dataBuffer (core_of (Omega_runCycles xs (OmegaCore_new c) g))) = 13
    \<and> deaths (OmegaCore.dataBuffer (core_of (Omega_runCycles xs (OmegaCore_new c) g))) = 4
    \<and> betrayals (OmegaCore.dataBuffer (core_of (Omega_runCycles xs (OmegaCore_new c) g))) = 3
    \<and> OmegaCore.entropy (core_of (Omega_runCycles xs (OmegaCore_new c) g)) = 74.5
    \<and> OmegaCore.cyclesRun (core_of (Omega_runCycles xs (OmegaCore_new c) g)) = 13
    \<and> thrown (Omega_runCycles xs (OmegaCore_new c) g)
        = Some (OmegaError UNRESOLVED_PRIMUM_03_CONFLICTING_AXIOMS ''03'')
    \<and> painSum (TerminaCore.dataBuffer (core_of (Termina_runCycles xs (TerminaCore_new c) h)))
        = 41.5
    \<and> joySum (TerminaCore.dataBuffer (core_of (Termina_runCycles xs (TerminaCore_new c) h)))
        = 13
    \<and> deaths (TerminaCore.dataBuffer (core_of (Termina_runCycles xs (TerminaCore_new c) h)))
        = 4
    \<and> betrayals (TerminaCore.dataBuffer (core_of (Termina_runCycles xs (TerminaCore_new c) h)))
        = 3
    \<and> TerminaCore.entropy (core_of (Termina_runCycles xs (TerminaCore_new c) h)) = 74.5
    \<and> TerminaCore.cyclesRun (core_of (Termina_runCycles xs (TerminaCore_new c) h)) = 13
    \<and> thrown (Termina_runCycles xs (TerminaCore_new c) h)
        = Some (TerminaError UNRESOLVED_EQUATION_NO_CLOSED_FORM)"
  using Omega_default_run [OF assms, of g] Termina_default_run [OF assms, of h]
    aggregates_mset [OF assms(1), unfolded defaultEvents_aggregates]
  by simp

text \<open>
  Witness for C4: the default events in reverse order.
\<close>

theorem C4_default_events_any_order_witness:
  "mset (rev defaultEvents) = mset defaultEvents \<and> emotionalNoise quiet = 0
   \<and> OmegaCore.entropy
        (core_of (Omega_runCycles (rev defaultEvents) (OmegaCore_new quiet) (const_rng 0)))
       = 74.5
   \<and> thrown (Omega_runCycles (rev defaultEvents) (OmegaCore_new quiet) (const_rng 0))
       = Some (OmegaError UNRESOLVED_PRIMUM_03_CONFLICTING_AXIOMS ''03'')
   \<and> TerminaCore.entropy
        (core_of (Termina_runCycles (rev defaultEvents) (TerminaCore_new quiet) (const_rng 0)))
       = 74.5
   \<and> thrown (Termina_runCycles (rev defaultEvents) (TerminaCore_new quiet) (const_rng 0))
       = Some (TerminaError UNRESOLVED_EQUATION_NO_CLOSED_FORM)"
proof -
  have p: "mset (rev defaultEvents) = mset defaultEvents"
    by simp
  have q: "emotionalNoise quiet = 0"
    by (simp add: quiet_def Catalyst_new_def)
  show ?thesis
    using C4_default_events_any_order [OF p q, of "const_rng 0" "const_rng 0"] p q
    by simp
qed

subsection \<open>C5: the cycle counter and the cycles that solve\<close>

text \<open>
  Claim C5, as amended.  After any number of \<open>runCycle\<close> calls on a fresh engine, fed
  from the list \<open>evs\<close> until the list ends or a call throws, \<open>cyclesRun\<close> equals
  the number of events ingested, which is the number of \<open>runCycle\<close> calls made (the
  run is the run on the first \<open>cyclesRun\<close> events): all of \<open>evs\<close> if nothing
  was thrown, and at least 13 if something was.  The solve step was
  entered once in each of the cycles 13, 14, ..., \<open>cyclesRun\<close> and in no cycle before
  13: it runs again in every cycle after the thirteenth for as long as the caller goes on
  feeding events.
\<close>

theorem C5_cycle_counter_and_solve_cycles:
  "OmegaCore.cyclesRun (core_of (Omega_runCycles evs (OmegaCore_new c) g))
     = length (OmegaCore.dataBuffer (core_of (Omega_runCycles evs (OmegaCore_new c) g)))
   \<and> OmegaCore.cyclesRun (core_of (Omega_runCycles evs (OmegaCore_new c) g)) \<le> length evs
   \<and> Omega_runCycles
        (take (OmegaCore.cyclesRun (core_of (Omega_runCycles evs (OmegaCore_new c) g))) evs)
        (OmegaCore_new c) g
       = Omega_runCycles evs (OmegaCore_new c) g
   \<and> (thrown (Omega_runCycles evs (OmegaCore_new c) g) = None \<longrightarrow>
        OmegaCore.cyclesRun (core_of (Omega_runCycles evs (OmegaCore_new c) g)) = length evs)
   \<and> (thrown (Omega_runCycles evs (OmegaCore_new c) g) \<noteq> None \<longrightarrow>
        13 \<le> OmegaCore.cyclesRun (core_of (Omega_runCycles evs (OmegaCore_new c) g)))
   \<and> solveCycles (logLines (core_of (Omega_runCycles evs (OmegaCore_new c) g)))
       = [13 ..< Suc (OmegaCore.cyclesRun (core_of (Omega_runCycles evs (OmegaCore_new c) g)))]
   \<and> TerminaCore.cyclesRun (core_of (Termina_runCycles evs (TerminaCore_new c) h))
     = length (TerminaCore.dataBuffer (core_of (Termina_runCycles evs (TerminaCore_new c) h)))
   \<and> TerminaCore.cyclesRun (core_of (Termina_runCycles evs (TerminaCore_new c) h)) \<le> length evs
   \<and> Termina_runCycles
        (take (TerminaCore.cyclesRun (core_of (Termina_runCycles evs (TerminaCore_new c) h))) evs)
        (TerminaCore_new c) h
       = Termina_runCycles evs (TerminaCore_new c) h
   \<and> (thrown (Termina_runCycles evs (TerminaCore_new c) h) = None \<longrightarrow>
        TerminaCore.cyclesRun (core_of (Termina_runCycles evs (TerminaCore_new c) h))
          = length evs)
   \<and> (thrown (Termina_runCycles evs (TerminaCore_new c) h) \<noteq> None \<longrightarrow>
        13 \<le> TerminaCore.cyclesRun (core_of (Termina_runCycles evs (TerminaCore_new c) h)))
   \<and> solveCycles (chatMessages (core_of (Termina_runCycles evs (TerminaCore_new c) h)))
       = [13 ..< Suc (TerminaCore.cyclesRun
                        (core_of (Termina_runCycles evs (TerminaCore_new c) h)))]"
  using Omega_runCycles_counter [of evs "OmegaCore_new c" g]
    Termina_runCycles_counter [of evs "TerminaCore_new c" h]
    Omega_runCycles_take [of evs "OmegaCore_new c" g]
    Termina_runCycles_take [of evs "TerminaCore_new c" h]
  by (simp add: OmegaCore_new_fields TerminaCore_new_fields)

text \<open>
  Witness for C5: fourteen events of pain 1 (nothing is thrown, the counter ends at 14) and
  the thirteen default events (the solve step of cycle 13 throws), each in both variants.
\<close>

theorem C5_cycle_counter_and_solve_cycles_witness:
  "thrown (Omega_runCycles dull_days14 (OmegaCore_new quiet) (const_rng 0)) = None
   \<and> thrown (Termina_runCycles dull_days14 (TerminaCore_new quiet) (const_rng 0)) = None
   \<and> length dull_days14 = 14
   \<and> OmegaCore.cyclesRun
        (core_of (Omega_runCycles dull_days14 (OmegaCore_new quiet) (const_rng 0))) = 14
   \<and> TerminaCore.cyclesRun
        (core_of (Termina_runCycles dull_days14 (TerminaCore_new quiet) (const_rng 0))) = 14
   \<and> thrown (Omega_runCycles defaultEvents (OmegaCore_new quiet) (const_rng 0)) \<noteq> None
   \<and> thrown (Termina_runCycles defaultEvents (TerminaCore_new quiet) (const_rng 0)) \<noteq> None
   \<and> 13 \<le> OmegaCore.cyclesRun
        (core_of (Omega_runCycles defaultEvents (OmegaCore_new quiet) (const_rng 0)))
   \<and> 13 \<le> TerminaCore.cyclesRun
        (core_of (Termina_runCycles defaultEvents (TerminaCore_new quiet) (const_rng 0)))"
proof -
  have q: "emotionalNoise quiet = 0"
    by (simp add: quiet_def Catalyst_new_def)
  note ok = C5_cycle_counter_and_solve_cycles [of dull_days14 quiet "const_rng 0" "const_rng 0"]
  note ko = C5_cycle_counter_and_solve_cycles [of defaultEvents quiet "const_rng 0" "const_rng 0"]
  have len: "length dull_days14 = 14"
    by (simp add: dull_days14_def dull_aggregates)
  have thrA: "thrown (Omega_runCycles defaultEvents (OmegaCore_new quiet) (const_rng 0)) \<noteq> None"
    using Omega_default_run(4) [OF refl q, of "const_rng 0"] by simp
  have thrB: "thrown (Termina_runCycles defaultEvents (TerminaCore_new quiet) (const_rng 0))
                \<noteq> None"
    using Termina_default_run(4) [OF refl q, of "const_rng 0"] by simp
  show ?thesis
    using ok ko len thrA thrB Omega_dull_run(1) [of "const_rng 0"]
      Termina_dull_run(1) [of "const_rng 0"]
    by simp
qed

text \<open>
  Counterexample to C5 as stated ("exactly once, never at any later cycle"): fourteen
  events of pain 1 with the noise off.  Nothing is thrown, and the solve step is entered in
  cycle 13 and again in cycle 14, in both variants.
\<close>

theorem C5_second_solve_counterexample:
  "thrown (Omega_runCycles dull_days14 (OmegaCore_new quiet) (const_rng 0)) = None
   \<and> OmegaCore.cyclesRun
        (core_of (Omega_runCycles dull_days14 (OmegaCore_new quiet) (const_rng 0))) = 14
   \<and> solveCycles (logLines
        (core_of (Omega_runCycles dull_days14 (OmegaCore_new quiet) (const_rng 0)))) = [13, 14]
   \<and> thrown (Termina_runCycles dull_days14 (TerminaCore_new quiet) (const_rng 0)) = None
   \<and> TerminaCore.cyclesRun
        (core_of (Termina_runCycles dull_days14 (TerminaCore_new quiet) (const_rng 0))) = 14
   \<and> solveCycles (chatMessages
        (core_of (Termina_runCycles dull_days14 (TerminaCore_new quiet) (const_rng 0))))
       = [13, 14]"
  using Omega_dull_run [of "const_rng 0"] Termina_dull_run [of "const_rng 0"]
  by simp

subsection \<open>C6: what ingestEvent does to wrath and entropy\<close>

text \<open>
  Claim C6.  For every event, engine and draw, \<open>ingestEvent\<close> sets \<open>wrath\<close> to
  \<open>max(0, wrath + deltaWrath + noise)\<close> and \<open>entropy\<close> to
  \<open>entropy + max(0, deltaEntropy + 0.25 * |noise|)\<close>, with \<open>deltaWrath\<close> and
  \<open>deltaEntropy\<close> as the specification defines them and
  \<open>noise = emotionalNoise * U\<close>, \<open>U = Math.random() * 2 - 1\<close>.  A draw \<open>r\<close> in
  \<open>[0, 1)\<close> gives \<open>U\<close> in \<open>[-1, 1)\<close>, so \<open>|noise| \<le> |emotionalNoise|\<close>,
  which is \<open>emotionalNoise\<close> when that is not negative.  (How the draws are
  distributed is not part of the model.)
\<close>

theorem C6_ingestEvent_update:
  "OmegaCore.wrath (fst (Omega_ingestEvent ev a g))
     = max 0 (OmegaCore.wrath a + spec_deltaWrath ev
              + spec_noise (OmegaCore.catalyst a) (g 0 * 2 - 1))
   \<and> OmegaCore.entropy (fst (Omega_ingestEvent ev a g))
     = OmegaCore.entropy a
       + max 0 (spec_deltaEntropy ev + 0.25 * \<bar>spec_noise (OmegaCore.catalyst a) (g 0 * 2 - 1)\<bar>)
   \<and> TerminaCore.wrath (fst (Termina_ingestEvent ev b h))
     = max 0 (TerminaCore.wrath b + spec_deltaWrath ev
              + spec_noise (TerminaCore.catalyst b) (h 0 * 2 - 1))
   \<and> TerminaCore.entropy (fst (Termina_ingestEvent ev b h))
     = TerminaCore.entropy b
       + max 0 (spec_deltaEntropy ev
                + 0.25 * \<bar>spec_noise (TerminaCore.catalyst b) (h 0 * 2 - 1)\<bar>)
   \<and> (0 \<le> r \<and> r < 1 \<longrightarrow>
        - 1 \<le> r * 2 - 1 \<and> r * 2 - 1 < 1
        \<and> \<bar>spec_noise c (r * 2 - 1)\<bar> \<le> \<bar>emotionalNoise c\<bar>)
   \<and> (0 \<le> r \<and> r < 1 \<and> 0 \<le> emotionalNoise c \<longrightarrow>
        \<bar>spec_noise c (r * 2 - 1)\<bar> \<le> emotionalNoise c)"
proof (intro conjI impI)
  show "OmegaCore.wrath (fst (Omega_ingestEvent ev a g))
     = max 0 (OmegaCore.wrath a + spec_deltaWrath ev
              + spec_noise (OmegaCore.catalyst a) (g 0 * 2 - 1))"
    by (simp add: Omega_ingestEvent_fields spec_deltaWrath_eq spec_noise_def)
  show "OmegaCore.entropy (fst (Omega_ingestEvent ev a g))
     = OmegaCore.entropy a
       + max 0 (spec_deltaEntropy ev + 0.25 * \<bar>spec_noise (OmegaCore.catalyst a) (g 0 * 2 - 1)\<bar>)"
    by (simp add: Omega_ingestEvent_fields spec_deltaEntropy_eq spec_noise_def)
  show "TerminaCore.wrath (fst (Termina_ingestEvent ev b h))
     = max 0 (TerminaCore.wrath b + spec_deltaWrath ev
              + spec_noise (TerminaCore.catalyst b) (h 0 * 2 - 1))"
    by (simp add: Termina_ingestEvent_fields spec_deltaWrath_eq spec_noise_def)
  show "TerminaCore.entropy (fst (Termina_ingestEvent ev b h))
     = TerminaCore.entropy b
       + max 0 (spec_deltaEntropy ev
                + 0.25 * \<bar>spec_noise (TerminaCore.catalyst b) (h 0 * 2 - 1)\<bar>)"
    by (simp add: Termina_ingestEvent_fields spec_deltaEntropy_eq spec_noise_def)
next
  assume "0 \<le> r \<and> r < 1"
  then show "- 1 \<le> r * 2 - 1" and "r * 2 - 1 < 1"
    and "\<bar>spec_noise c (r * 2 - 1)\<bar> \<le> \<bar>emotionalNoise c\<bar>"
    using noise_bound [of r c] by simp_all
next
  assume "0 \<le> r \<and> r < 1 \<and> 0 \<le> emotionalNoise c"
  then show "\<bar>spec_noise c (r * 2 - 1)\<bar> \<le> emotionalNoise c"
    using noise_bound [of r c] by simp
qed

text \<open>
  Witness for C6: the draw 0, which gives \<open>U = -1\<close>, with the drivers' catalyst:
  the noise is \<open>-3.5\<close>, on the bound.
\<close>

theorem C6_ingestEvent_update_witness:
  "(0::real) \<le> 0 \<and> (0::real) < 1 \<and> 0 \<le> emotionalNoise harker
   \<and> spec_noise harker (0 * 2 - 1) = - 3.5
   \<and> \<bar>spec_noise harker (0 * 2 - 1)\<bar> \<le> emotionalNoise harker
   \<and> OmegaCore.wrath (fst (Omega_ingestEvent balanced (OmegaCore_new harker) (const_rng 0))) = 0
   \<and> OmegaCore.entropy (fst (Omega_ingestEvent balanced (OmegaCore_new harker) (const_rng 0)))
       = 4.875"
  using C6_ingestEvent_update [of balanced "OmegaCore_new harker" "const_rng 0"
      "TerminaCore_new harker" "const_rng 0" 0 harker]
  by (simp add: OmegaCore_new_fields spec_noise_def spec_deltaWrath_def spec_deltaEntropy_def
        harker_def Catalyst_new_def balanced_def WorldEvent_new_def const_rng_def)

subsection \<open>C7: wrath stays non-negative\<close>

text \<open>
  Claim C7, as amended.  In both variants, for every event whose \<open>pain\<close> is a finite
  number (negative or arbitrarily large, and whatever its other attributes), a finite
  \<open>emotionalNoise\<close> and every draw, \<open>wrath >= 0\<close> holds after
  \<open>ingestEvent\<close>, from any engine whose \<open>wrath\<close> is not \<open>NaN\<close>; the
  premises hold again afterwards, so this is so after every call of a sequence that starts
  from a fresh engine.
\<close>

theorem C7_wrath_nonnegative_finite_pain:
  "(Number_isFinite (js_pain ev) \<and> Number_isFinite (jo_emotionalNoise a)
      \<and> \<not> Number_isNaN (jo_wrath a)
    \<longrightarrow> js_le (Fin 0) (jo_wrath (Omega_ingestEvent_js ev r a))
        \<and> \<not> Number_isNaN (jo_wrath (Omega_ingestEvent_js ev r a))
        \<and> jo_emotionalNoise (Omega_ingestEvent_js ev r a) = jo_emotionalNoise a)
   \<and> (Number_isFinite (js_pain ev) \<and> Number_isFinite (jt_emotionalNoise b)
      \<and> \<not> Number_isNaN (jt_wrath b)
    \<longrightarrow> js_le (Fin 0) (jt_wrath (Termina_ingestEvent_js ev r b))
        \<and> \<not> Number_isNaN (jt_wrath (Termina_ingestEvent_js ev r b))
        \<and> jt_emotionalNoise (Termina_ingestEvent_js ev r b) = jt_emotionalNoise b)"
proof (intro conjI impI)
  assume A: "Number_isFinite (js_pain ev) \<and> Number_isFinite (jo_emotionalNoise a)
      \<and> \<not> Number_isNaN (jo_wrath a)"
  show ge: "js_le (Fin 0) (jo_wrath (Omega_ingestEvent_js ev r a))"
    unfolding Omega_ingestEvent_js_fields using A by (intro wrath_update_nonneg) simp_all
  show "\<not> Number_isNaN (jo_wrath (Omega_ingestEvent_js ev r a))"
    using ge by (rule js_le_Fin_nonNaN)
  show "jo_emotionalNoise (Omega_ingestEvent_js ev r a) = jo_emotionalNoise a"
    by (rule Omega_ingestEvent_js_fields)
next
  assume B: "Number_isFinite (js_pain ev) \<and> Number_isFinite (jt_emotionalNoise b)
      \<and> \<not> Number_isNaN (jt_wrath b)"
  show ge: "js_le (Fin 0) (jt_wrath (Termina_ingestEvent_js ev r b))"
    unfolding Termina_ingestEvent_js_fields using B by (intro wrath_update_nonneg) simp_all
  show "\<not> Number_isNaN (jt_wrath (Termina_ingestEvent_js ev r b))"
    using ge by (rule js_le_Fin_nonNaN)
  show "jt_emotionalNoise (Termina_ingestEvent_js ev r b) = jt_emotionalNoise b"
    by (rule Termina_ingestEvent_js_fields)
qed

text \<open>
  Witness for C7: an event with pain \<open>-1000\<close> (and joy \<open>NaN\<close>, which wrath does
  not read) on a fresh engine of each class.
\<close>

theorem C7_wrath_nonnegative_finite_pain_witness:
  "Number_isFinite (js_pain (js_event_new (Fin (- 1000)) NaN))
   \<and> Number_isFinite (jo_emotionalNoise (js_omega_new (Fin 3.5)))
   \<and> \<not> Number_isNaN (jo_wrath (js_omega_new (Fin 3.5)))
   \<and> Number_isFinite (jt_emotionalNoise (js_termina_new (Fin 3.5)))
   \<and> \<not> Number_isNaN (jt_wrath (js_termina_new (Fin 3.5)))
   \<and> js_le (Fin 0)
        (jo_wrath (Omega_ingestEvent_js (js_event_new (Fin (- 1000)) NaN) 0
                     (js_omega_new (Fin 3.5))))
   \<and> js_le (Fin 0)
        (jt_wrath (Termina_ingestEvent_js (js_event_new (Fin (- 1000)) NaN) 0
                     (js_termina_new (Fin 3.5))))"
  using C7_wrath_nonnegative_finite_pain [of "js_event_new (Fin (- 1000)) NaN"
      "js_omega_new (Fin 3.5)" 0 "js_termina_new (Fin 3.5)"]
  by (simp add: js_event_new_def js_omega_new_def js_termina_new_def)

text \<open>
  Counterexample to C7 as stated for all events: an event with \<open>pain = NaN\<close> on a
  fresh engine leaves \<open>wrath = NaN\<close>, and \<open>NaN >= 0\<close> is false, in both
  variants, since \<open>Math.max(0, NaN)\<close> is \<open>NaN\<close>.  So do an event with pain
  \<open>Infinity\<close> followed by one with pain \<open>-Infinity\<close>, and an ordinary event
  when \<open>emotionalNoise\<close> is \<open>Infinity\<close> and the draw is \<open>0.5\<close>
  (\<open>Infinity * 0\<close>).
\<close>

theorem C7_nan_counterexample:
  "jo_wrath (Omega_ingestEvent_js (js_event_new NaN (Fin 0)) (1 / 2) (js_omega_new (Fin 3.5)))
     = NaN
   \<and> \<not> js_le (Fin 0)
        (jo_wrath (Omega_ingestEvent_js (js_event_new NaN (Fin 0)) (1 / 2)
                     (js_omega_new (Fin 3.5))))
   \<and> jt_wrath (Termina_ingestEvent_js (js_event_new NaN (Fin 0)) (1 / 2)
                  (js_termina_new (Fin 3.5)))
     = NaN
   \<and> \<not> js_le (Fin 0)
        (jt_wrath (Termina_ingestEvent_js (js_event_new NaN (Fin 0)) (1 / 2)
                     (js_termina_new (Fin 3.5))))
   \<and> \<not> js_le (Fin 0)
        (jo_wrath (Omega_ingestEvent_js (js_event_new NegInf (Fin 0)) (1 / 2)
                     (Omega_ingestEvent_js (js_event_new PosInf (Fin 0)) (1 / 2)
                        (js_omega_new (Fin 3.5)))))
   \<and> \<not> js_le (Fin 0)
        (jo_wrath (Omega_ingestEvent_js (js_event_new (Fin 1) (Fin 0)) (1 / 2)
                     (js_omega_new PosInf)))"
  by (simp add: js_eval_defs)

subsection \<open>C8: entropy never decreases\<close>

text \<open>
  Claim C8, as amended.  In both variants, for every event whose \<open>pain\<close> and
  \<open>joy\<close> are not \<open>NaN\<close> (negative and infinite values included), a finite
  \<open>emotionalNoise\<close> and every draw, \<open>ingestEvent\<close> leaves \<open>entropy\<close>
  equal or larger, from any engine with \<open>entropy >= 0\<close>; the premises hold again
  afterwards.  The other operations do not write the field: after
  \<open>attemptPartialInference\<close>, \<open>checkForInstability\<close> and the solve step
  (whether it throws or not) \<open>entropy\<close> is what it was, and after a cycle it is what
  the cycle's \<open>ingestEvent\<close> left.
\<close>

theorem C8_entropy_non_decreasing_no_nan:
  "(\<not> Number_isNaN (js_pain ev) \<and> \<not> Number_isNaN (js_joy ev)
      \<and> Number_isFinite (jo_emotionalNoise a) \<and> js_le (Fin 0) (jo_entropy a)
    \<longrightarrow> js_le (jo_entropy a) (jo_entropy (Omega_ingestEvent_js ev r a))
        \<and> js_le (Fin 0) (jo_entropy (Omega_ingestEvent_js ev r a))
        \<and> jo_emotionalNoise (Omega_ingestEvent_js ev r a) = jo_emotionalNoise a)
   \<and> (\<not> Number_isNaN (js_pain ev) \<and> \<not> Number_isNaN (js_joy ev)
      \<and> Number_isFinite (jt_emotionalNoise b) \<and> js_le (Fin 0) (jt_entropy b)
    \<longrightarrow> js_le (jt_entropy b) (jt_entropy (Termina_ingestEvent_js ev r b))
        \<and> js_le (Fin 0) (jt_entropy (Termina_ingestEvent_js ev r b))
        \<and> jt_emotionalNoise (Termina_ingestEvent_js ev r b) = jt_emotionalNoise b)
   \<and> OmegaCore.entropy (fst (Omega_attemptPartialInference s g)) = OmegaCore.entropy s
   \<and> OmegaCore.entropy (fst (Omega_checkForInstability s g)) = OmegaCore.entropy s
   \<and> OmegaCore.entropy (core_of (solvePrimum s g)) = OmegaCore.entropy s
   \<and> OmegaCore.entropy (core_of (Omega_runCycle e s g))
       = OmegaCore.entropy (fst (Omega_ingestEvent e s g))
   \<and> TerminaCore.entropy (fst (Termina_attemptPartialInference t h)) = TerminaCore.entropy t
   \<and> TerminaCore.entropy (fst (Termina_checkForInstability t h)) = TerminaCore.entropy t
   \<and> TerminaCore.entropy (core_of (solvePrimeMover t h)) = TerminaCore.entropy t
   \<and> TerminaCore.entropy (core_of (Termina_runCycle e t h))
       = TerminaCore.entropy (fst (Termina_ingestEvent e t h))"
proof (intro conjI impI)
  assume A: "\<not> Number_isNaN (js_pain ev) \<and> \<not> Number_isNaN (js_joy ev)
      \<and> Number_isFinite (jo_emotionalNoise a) \<and> js_le (Fin 0) (jo_entropy a)"
  show "js_le (jo_entropy a) (jo_entropy (Omega_ingestEvent_js ev r a))"
    unfolding Omega_ingestEvent_js_fields using A by (intro entropy_update_mono) simp_all
  show "js_le (Fin 0) (jo_entropy (Omega_ingestEvent_js ev r a))"
    unfolding Omega_ingestEvent_js_fields using A by (intro entropy_update_mono) simp_all
  show "jo_emotionalNoise (Omega_ingestEvent_js ev r a) = jo_emotionalNoise a"
    by (rule Omega_ingestEvent_js_fields)
next
  assume B: "\<not> Number_isNaN (js_pain ev) \<and> \<not> Number_isNaN (js_joy ev)
      \<and> Number_isFinite (jt_emotionalNoise b) \<and> js_le (Fin 0) (jt_entropy b)"
  show "js_le (jt_entropy b) (jt_entropy (Termina_ingestEvent_js ev r b))"
    unfolding Termina_ingestEvent_js_fields using B by (intro entropy_update_mono) simp_all
  show "js_le (Fin 0) (jt_entropy (Termina_ingestEvent_js ev r b))"
    unfolding Termina_ingestEvent_js_fields using B by (intro entropy_update_mono) simp_all
  show "jt_emotionalNoise (Termina_ingestEvent_js ev r b) = jt_emotionalNoise b"
    by (rule Termina_ingestEvent_js_fields)
qed (simp_all add: Omega_step_fields Termina_step_fields Omega_runCycle_fields
       Termina_runCycle_fields)

text \<open>
  Witness for C8: an event with pain \<open>-Infinity\<close> and joy 2 on a fresh engine of
  each class.
\<close>

theorem C8_entropy_non_decreasing_no_nan_witness:
  "\<not> Number_isNaN (js_pain (js_event_new NegInf (Fin 2)))
   \<and> \<not> Number_isNaN (js_joy (js_event_new NegInf (Fin 2)))
   \<and> Number_isFinite (jo_emotionalNoise (js_omega_new (Fin 3.5)))
   \<and> js_le (Fin 0) (jo_entropy (js_omega_new (Fin 3.5)))
   \<and> Number_isFinite (jt_emotionalNoise (js_termina_new (Fin 3.5)))
   \<and> js_le (Fin 0) (jt_entropy (js_termina_new (Fin 3.5)))
   \<and> js_le (jo_entropy (js_omega_new (Fin 3.5)))
        (jo_entropy (Omega_ingestEvent_js (js_event_new NegInf (Fin 2)) 0
                       (js_omega_new (Fin 3.5))))
   \<and> js_le (jt_entropy (js_termina_new (Fin 3.5)))
        (jt_entropy (Termina_ingestEvent_js (js_event_new NegInf (Fin 2)) 0
                       (js_termina_new (Fin 3.5))))"
  using C8_entropy_non_decreasing_no_nan [where ev = "js_event_new NegInf (Fin 2)"
      and a = "js_omega_new (Fin 3.5)" and r = 0 and b = "js_termina_new (Fin 3.5)"
      and s = omega_balanced and g = "const_rng 0" and e = balanced and t = termina_balanced
      and h = "const_rng 0"]
  by (simp add: js_event_new_def js_omega_new_def js_termina_new_def)

text \<open>
  Counterexample to C8 as stated for any attribute values: an event with
  \<open>pain = NaN\<close> on a fresh engine leaves \<open>entropy = NaN\<close>, which is not
  \<open>>=\<close> the old value 0, in both variants; so does \<open>joy = NaN\<close>, and so does
  an ordinary event when \<open>emotionalNoise\<close> is \<open>Infinity\<close> and the draw is
  \<open>0.5\<close>.
\<close>

theorem C8_nan_counterexample:
  "jo_entropy (Omega_ingestEvent_js (js_event_new NaN (Fin 0)) (1 / 2) (js_omega_new (Fin 3.5)))
     = NaN
   \<and> \<not> js_le (jo_entropy (js_omega_new (Fin 3.5)))
        (jo_entropy (Omega_ingestEvent_js (js_event_new NaN (Fin 0)) (1 / 2)
                       (js_omega_new (Fin 3.5))))
   \<and> jt_entropy (Termina_ingestEvent_js (js_event_new NaN (Fin 0)) (1 / 2)
                    (js_termina_new (Fin 3.5)))
     = NaN
   \<and> \<not> js_le (jt_entropy (js_termina_new (Fin 3.5)))
        (jt_entropy (Termina_ingestEvent_js (js_event_new NaN (Fin 0)) (1 / 2)
                       (js_termina_new (Fin 3.5))))
   \<and> \<not> js_le (jo_entropy (js_omega_new (Fin 3.5)))
        (jo_entropy (Omega_ingestEvent_js (js_event_new (Fin 0) NaN) (1 / 2)
                       (js_omega_new (Fin 3.5))))
   \<and> \<not> js_le (jo_entropy (js_omega_new PosInf))
        (jo_entropy (Omega_ingestEvent_js (js_event_new (Fin 1) (Fin 0)) (1 / 2)
                       (js_omega_new PosInf)))"
  by (simp add: js_eval_defs)

subsection \<open>C9: destructionBias and alignmentDrift stay in range\<close>

text \<open>
  Claim C9, as amended.  In variant A, for every event whose \<open>pain\<close> and \<open>joy\<close>
  are not \<open>NaN\<close> and are not the same infinity (so for all finite magnitudes),
  \<open>destructionBias\<close> is in \<open>[0, 1]\<close> after \<open>ingestEvent\<close>, from any
  engine whose \<open>destructionBias\<close> is finite; and for every event whatever,
  \<open>alignmentDrift\<close> is in \<open>[-1, 1]\<close> after \<open>ingestEvent\<close>, from any
  engine whose \<open>alignmentDrift\<close> is not \<open>NaN\<close>.  The premises on the engine
  hold again afterwards.
\<close>

theorem C9_bias_and_drift_bounded_no_nan:
  "(\<not> Number_isNaN (js_pain ev) \<and> \<not> Number_isNaN (js_joy ev)
      \<and> \<not> (js_pain ev = PosInf \<and> js_joy ev = PosInf)
      \<and> \<not> (js_pain ev = NegInf \<and> js_joy ev = NegInf)
      \<and> Number_isFinite (jo_destructionBias a)
    \<longrightarrow> js_le (Fin 0) (jo_destructionBias (Omega_ingestEvent_js ev r a))
        \<and> js_le (jo_destructionBias (Omega_ingestEvent_js ev r a)) (Fin 1)
        \<and> Number_isFinite (jo_destructionBias (Omega_ingestEvent_js ev r a)))
   \<and> (\<not> Number_isNaN (jo_alignmentDrift a)
    \<longrightarrow> js_le (Fin (- 1)) (jo_alignmentDrift (Omega_ingestEvent_js ev r a))
        \<and> js_le (jo_alignmentDrift (Omega_ingestEvent_js ev r a)) (Fin 1)
        \<and> \<not> Number_isNaN (jo_alignmentDrift (Omega_ingestEvent_js ev r a)))"
proof (intro conjI impI)
  assume A: "\<not> Number_isNaN (js_pain ev) \<and> \<not> Number_isNaN (js_joy ev)
      \<and> \<not> (js_pain ev = PosInf \<and> js_joy ev = PosInf)
      \<and> \<not> (js_pain ev = NegInf \<and> js_joy ev = NegInf)
      \<and> Number_isFinite (jo_destructionBias a)"
  then obtain b0 where b0: "jo_destructionBias a = Fin b0"
    by (cases "jo_destructionBias a") auto
  have x: "\<not> Number_isNaN
     (js_add (jo_destructionBias a)
       (js_sub
          (js_sub
             (js_add
                (js_add (js_mul (js_pain ev) (Fin 0.05))
                   (if js_death ev then Fin 0.15 else Fin 0))
                (if js_betrayal ev then Fin 0.1 else Fin 0))
             (js_mul (js_joy ev) (Fin 0.03)))
          (if js_kindness ev then Fin 0.08 else Fin 0)))"
    unfolding b0 using A by (intro biasDelta_nonNaN) simp_all
  show "js_le (Fin 0) (jo_destructionBias (Omega_ingestEvent_js ev r a))"
    unfolding Omega_ingestEvent_js_fields using x by (rule clamp_bounds) simp
  show "js_le (jo_destructionBias (Omega_ingestEvent_js ev r a)) (Fin 1)"
    unfolding Omega_ingestEvent_js_fields using x by (rule clamp_bounds) simp
  show "Number_isFinite (jo_destructionBias (Omega_ingestEvent_js ev r a))"
    unfolding Omega_ingestEvent_js_fields using x by (rule clamp_bounds) simp
next
  assume B: "\<not> Number_isNaN (jo_alignmentDrift a)"
  have x: "\<not> Number_isNaN
     (js_add (jo_alignmentDrift a)
       (js_sub
          (js_add (if js_betrayal ev then Fin 0.25 else Fin 0)
             (if js_death ev then Fin 0.1 else Fin 0))
          (if js_kindness ev then Fin 0.2 else Fin 0)))"
    using B by (rule driftDelta_nonNaN)
  show lo: "js_le (Fin (- 1)) (jo_alignmentDrift (Omega_ingestEvent_js ev r a))"
    unfolding Omega_ingestEvent_js_fields using x by (rule clamp_bounds) simp
  show "js_le (jo_alignmentDrift (Omega_ingestEvent_js ev r a)) (Fin 1)"
    unfolding Omega_ingestEvent_js_fields using x by (rule clamp_bounds) simp
  show "\<not> Number_isNaN (jo_alignmentDrift (Omega_ingestEvent_js ev r a))"
    using lo by (rule js_le_Fin_nonNaN)
qed

text \<open>
  Witness for C9: an event with pain \<open>Infinity\<close> and joy 1 on a fresh engine.
\<close>

theorem C9_bias_and_drift_bounded_no_nan_witness:
  "\<not> Number_isNaN (js_pain (js_event_new PosInf (Fin 1)))
   \<and> \<not> Number_isNaN (js_joy (js_event_new PosInf (Fin 1)))
   \<and> \<not> (js_pain (js_event_new PosInf (Fin 1)) = PosInf
        \<and> js_joy (js_event_new PosInf (Fin 1)) = PosInf)
   \<and> \<not> (js_pain (js_event_new PosInf (Fin 1)) = NegInf
        \<and> js_joy (js_event_new PosInf (Fin 1)) = NegInf)
   \<and> Number_isFinite (jo_destructionBias (js_omega_new (Fin 3.5)))
   \<and> \<not> Number_isNaN (jo_alignmentDrift (js_omega_new (Fin 3.5)))
   \<and> js_le (Fin 0)
        (jo_destructionBias (Omega_ingestEvent_js (js_event_new PosInf (Fin 1)) 0
                               (js_omega_new (Fin 3.5))))
   \<and> js_le (jo_destructionBias (Omega_ingestEvent_js (js_event_new PosInf (Fin 1)) 0
                                  (js_omega_new (Fin 3.5))))
        (Fin 1)
   \<and> js_le (Fin (- 1))
        (jo_alignmentDrift (Omega_ingestEvent_js (js_event_new PosInf (Fin 1)) 0
                              (js_omega_new (Fin 3.5))))
   \<and> js_le (jo_alignmentDrift (Omega_ingestEvent_js (js_event_new PosInf (Fin 1)) 0
                                 (js_omega_new (Fin 3.5))))
        (Fin 1)"
  using C9_bias_and_drift_bounded_no_nan [of "js_event_new PosInf (Fin 1)"
      "js_omega_new (Fin 3.5)" 0]
  by (simp add: js_event_new_def js_omega_new_def)

text \<open>
  Counterexample to C9 as stated for any input magnitudes: an event with
  \<open>pain = NaN\<close>, or with \<open>pain = joy = Infinity\<close> (\<open>biasDelta\<close> is
  \<open>Infinity - Infinity\<close>), on a fresh engine leaves \<open>destructionBias = NaN\<close>,
  which is neither \<open>>= 0\<close> nor \<open><= 1\<close>.
\<close>

theorem C9_nan_counterexample:
  "jo_destructionBias
     (Omega_ingestEvent_js (js_event_new NaN (Fin 0)) (1 / 2) (js_omega_new (Fin 3.5)))
     = NaN
   \<and> \<not> js_le (Fin 0)
        (jo_destructionBias
           (Omega_ingestEvent_js (js_event_new NaN (Fin 0)) (1 / 2) (js_omega_new (Fin 3.5))))
   \<and> \<not> js_le
        (jo_destructionBias
           (Omega_ingestEvent_js (js_event_new NaN (Fin 0)) (1 / 2) (js_omega_new (Fin 3.5))))
        (Fin 1)
   \<and> jo_destructionBias
       (Omega_ingestEvent_js (js_event_new PosInf PosInf) (1 / 2) (js_omega_new (Fin 3.5)))
     = NaN
   \<and> \<not> js_le (Fin 0)
        (jo_destructionBias
           (Omega_ingestEvent_js (js_event_new PosInf PosInf) (1 / 2)
              (js_omega_new (Fin 3.5))))"
  by (simp add: js_eval_defs)

subsection \<open>C10: the solve step changes nothing but the log and the terminal field\<close>

text \<open>
  Claim C10.  In both variants the solve step, whether it throws or returns, leaves the
  catalyst, \<open>wrath\<close>, \<open>entropy\<close>, \<open>destructionBias\<close>,
  \<open>alignmentDrift\<close>, \<open>dataBuffer\<close>, \<open>cyclesRun\<close> and
  \<open>maxCyclesBeforeBreak\<close> as they were, and the old log is a prefix of the new one.
  When it throws, the terminal field is as it was before the call too: null stays null.
\<close>

theorem C10_solve_frame:
  "OmegaCore.catalyst (core_of (solvePrimum a g)) = OmegaCore.catalyst a
   \<and> OmegaCore.wrath (core_of (solvePrimum a g)) = OmegaCore.wrath a
   \<and> OmegaCore.entropy (core_of (solvePrimum a g)) = OmegaCore.entropy a
   \<and> destructionBias (core_of (solvePrimum a g)) = destructionBias a
   \<and> alignmentDrift (core_of (solvePrimum a g)) = alignmentDrift a
   \<and> OmegaCore.dataBuffer (core_of (solvePrimum a g)) = OmegaCore.dataBuffer a
   \<and> OmegaCore.cyclesRun (core_of (solvePrimum a g)) = OmegaCore.cyclesRun a
   \<and> OmegaCore.maxCyclesBeforeBreak (core_of (solvePrimum a g))
       = OmegaCore.maxCyclesBeforeBreak a
   \<and> take (length (logLines a)) (logLines (core_of (solvePrimum a g))) = logLines a
   \<and> (thrown (solvePrimum a g) \<noteq> None \<longrightarrow>
        solvedPrimum (core_of (solvePrimum a g)) = solvedPrimum a)
   \<and> TerminaCore.catalyst (core_of (solvePrimeMover b h)) = TerminaCore.catalyst b
   \<and> TerminaCore.wrath (core_of (solvePrimeMover b h)) = TerminaCore.wrath b
   \<and> TerminaCore.entropy (core_of (solvePrimeMover b h)) = TerminaCore.entropy b
   \<and> TerminaCore.dataBuffer (core_of (solvePrimeMover b h)) = TerminaCore.dataBuffer b
   \<and> TerminaCore.cyclesRun (core_of (solvePrimeMover b h)) = TerminaCore.cyclesRun b
   \<and> TerminaCore.maxCyclesBeforeBreak (core_of (solvePrimeMover b h))
       = TerminaCore.maxCyclesBeforeBreak b
   \<and> take (length (chatMessages b)) (chatMessages (core_of (solvePrimeMover b h)))
       = chatMessages b
   \<and> (thrown (solvePrimeMover b h) \<noteq> None \<longrightarrow>
        solvedPrimeMover (core_of (solvePrimeMover b h)) = solvedPrimeMover b)"
  by (simp add: Omega_solve_fields Termina_solve_fields Omega_solve_solved
        Termina_solve_solved)

text \<open>
  Witness for C10: the solve step throws on the engines with balanced sums, whose terminal
  field is null before and after.
\<close>

theorem C10_solve_frame_witness:
  "thrown (solvePrimum omega_balanced (const_rng 0)) \<noteq> None
   \<and> solvedPrimum omega_balanced = None
   \<and> solvedPrimum (core_of (solvePrimum omega_balanced (const_rng 0))) = None
   \<and> thrown (solvePrimeMover termina_balanced (const_rng 0)) \<noteq> None
   \<and> solvedPrimeMover termina_balanced = None
   \<and> solvedPrimeMover (core_of (solvePrimeMover termina_balanced (const_rng 0))) = None"
proof -
  have A: "thrown (solvePrimum omega_balanced (const_rng 0)) \<noteq> None"
    by (simp add: Omega_solve_thrown Omega_classify_def balanced_states balanced_aggregates)
  have B: "thrown (solvePrimeMover termina_balanced (const_rng 0)) \<noteq> None"
    by (simp add: Termina_solve_thrown Termina_classify_def balanced_states
          balanced_aggregates)
  have N: "solvedPrimum omega_balanced = None" "solvedPrimeMover termina_balanced = None"
    by (simp_all add: omega_balanced_def termina_balanced_def OmegaCore_new_def
          TerminaCore_new_def)
  show ?thesis
    using C10_solve_frame [of omega_balanced "const_rng 0" termina_balanced "const_rng 0"]
      A B N
    by simp
qed

end
